theory Spec2Isabelle
  imports Complex_Main "HOL-Library.Char_ord" "HOL-Library.List_Lexorder" "HOL-Library.Multiset"
begin

text \<open>
  A model of the core of the PaymentAsia mock server: the signature service, the scenario
  service that decides the outcome of a payment, the payment service and its store, the
  callback service with its retries, and the timers of the payment page route. Functions
  keep the names they have in the sources. What the platform provides (the SHA-512
  digest, the random number, the answers of the callback target, the identifiers and
  times given by the database) is a parameter of the function that uses it.
\<close>

section \<open>Strings and plain JavaScript objects\<close>

text \<open>
  A string of the program is a sequence of UTF-16 code units. The model covers the
  strings whose code units are all below 256 (the Latin-1 range, which holds every
  character of the payment fields): such a string is the \<^typ>\<open>string\<close> of its code
  units, one \<^typ>\<open>char\<close> for each. The order of \<^typ>\<open>string\<close> is the lexicographic
  order of the code units, which is the order \<^verbatim>\<open>Array.prototype.sort()\<close> uses. None
  of these strings holds a surrogate, so \<^verbatim>\<open>querystring.escape\<close> never throws on them.

  A \<^verbatim>\<open>Record<string, string>\<close> is an association list holding the own properties in
  the order of their creation. A well-formed object has no key twice.
\<close>

type_synonym jsobject = "(string \<times> string) list"

definition wf_object :: "jsobject \<Rightarrow> bool" where
  "wf_object obj = distinct (map fst obj)"

definition is_digit :: "char \<Rightarrow> bool" where
  "is_digit c = (48 \<le> (of_char c :: nat) \<and> (of_char c :: nat) \<le> 57)"

definition digit_val :: "char \<Rightarrow> nat" where
  "digit_val c = of_char c - 48"

definition nat_of_digits :: "string \<Rightarrow> nat" where
  "nat_of_digits s = foldl (\<lambda>n c. 10 * n + digit_val c) 0 s"

text \<open>
  An array index is a property key that is the canonical decimal numeral of an integer
  from 0 to \<open>2^32 - 2\<close>: digits only, no leading zero except for \<open>''0''\<close> itself.
\<close>

definition is_array_index :: "string \<Rightarrow> bool" where
  "is_array_index k =
     (k \<noteq> [] \<and> list_all is_digit k \<and> (k = ''0'' \<or> hd k \<noteq> CHR ''0'')
      \<and> nat_of_digits k < 4294967295)"

text \<open>
  \<^verbatim>\<open>Object.keys(obj)\<close>: the language lists the array-index keys first, in ascending
  numeric order, and then the other string keys in the order of their creation.
\<close>

definition Object_keys :: "jsobject \<Rightarrow> string list" where
  "Object_keys obj =
     sort_key nat_of_digits (filter is_array_index (map fst obj))
     @ filter (\<lambda>k. \<not> is_array_index k) (map fst obj)"

text \<open>
  \<^verbatim>\<open>obj[key] = value\<close> on a plain object, the value being a string: an own property
  keeps its place and takes the value, a new property is created last. The key
  \<^verbatim>\<open>__proto__\<close> is the exception: on an object with no own property of that name
  the assignment runs the setter inherited from \<^verbatim>\<open>Object.prototype\<close>, which ignores
  a value that is a string and creates no property.
\<close>

definition obj_set :: "jsobject \<Rightarrow> string \<Rightarrow> string \<Rightarrow> jsobject" where
  "obj_set obj k v =
     (if k \<in> set (map fst obj)
      then map (\<lambda>(k', v'). if k' = k then (k', v) else (k', v')) obj
      else if k = ''__proto__'' then obj
      else obj @ [(k, v)])"

text \<open>\<^verbatim>\<open>obj[key]\<close>, \<open>None\<close> for \<^verbatim>\<open>undefined\<close>.\<close>

definition obj_get :: "jsobject \<Rightarrow> string \<Rightarrow> string option" where
  "obj_get obj k = map_of obj k"

section \<open>The signature service\<close>

subsection \<open>querystring.stringify\<close>

text \<open>
  The characters \<^verbatim>\<open>querystring.escape\<close> leaves alone are the letters, the digits and
  \<^verbatim>\<open>- _ . ! ~ * ' ( )\<close>. Every other code unit below 128 becomes \<^verbatim>\<open>%XX\<close> with
  two upper-case hexadecimal digits, so a space is \<^verbatim>\<open>%20\<close>. A code unit \<open>c\<close> from
  128 to 255 becomes the two bytes of its UTF-8 encoding,
  \<^verbatim>\<open>hexTable[0xC0 | (c >> 6)] + hexTable[0x80 | (c & 0x3F)]\<close>.
\<close>

definition noEscape :: "char \<Rightarrow> bool" where
  "noEscape c =
     (let n = (of_char c :: nat) in
        (65 \<le> n \<and> n \<le> 90) \<or> (97 \<le> n \<and> n \<le> 122) \<or> (48 \<le> n \<and> n \<le> 57)
        \<or> c \<in> set ''-_.!~*'()'')"

definition hex_upper :: "nat \<Rightarrow> char" where
  "hex_upper d = ''0123456789ABCDEF'' ! (d mod 16)"

definition hex_val :: "char \<Rightarrow> nat" where
  "hex_val c = (if 65 \<le> (of_char c :: nat) then of_char c - 55 else of_char c - 48)"

definition hexTable :: "nat \<Rightarrow> string" where
  "hexTable n = [CHR ''%'', hex_upper (n div 16), hex_upper n]"

definition escape_char :: "char \<Rightarrow> string" where
  "escape_char c =
     (let n = (of_char c :: nat) in
      if n < 128 then (if noEscape c then [c] else hexTable n)
      else hexTable (192 + n div 64) @ hexTable (128 + n mod 64))"

definition qsEscape :: "string \<Rightarrow> string" where
  "qsEscape s = concat (map escape_char s)"

fun join_amp :: "string list \<Rightarrow> string" where
  "join_amp [] = []"
| "join_amp [x] = x"
| "join_amp (x # y # ys) = x @ ''&'' @ join_amp (y # ys)"

definition pair_string :: "jsobject \<Rightarrow> string \<Rightarrow> string" where
  "pair_string obj k =
     qsEscape k @ ''='' @ qsEscape (case obj_get obj k of Some v \<Rightarrow> v | None \<Rightarrow> [])"

definition stringify :: "jsobject \<Rightarrow> string" where
  "stringify obj = join_amp (map (pair_string obj) (Object_keys obj))"

subsection \<open>SignatureService\<close>

text \<open>
  \<^verbatim>\<open>sortFields\<close>: the keys are sorted, then copied one by one into a fresh object
  by the assignment \<^verbatim>\<open>sortedFields[key] = fields[key]\<close>. The lookup
  \<^verbatim>\<open>fields[key]\<close> cannot miss, every key being an own key of \<open>fields\<close>.
\<close>

definition sortFields :: "jsobject \<Rightarrow> jsobject" where
  "sortFields fields =
     (let sortedKeys = sort (Object_keys fields) in
      foldl (\<lambda>sortedFields key.
               case obj_get fields key of
                 Some v \<Rightarrow> obj_set sortedFields key v
               | None \<Rightarrow> sortedFields)
            [] sortedKeys)"

definition sortAndBuildQuery :: "jsobject \<Rightarrow> string" where
  "sortAndBuildQuery fields = stringify (sortFields fields)"

text \<open>
  The digest \<^verbatim>\<open>crypto.createHash('sha512').update(s).digest('hex')\<close> is a function of
  the platform; it is the parameter \<open>sha512\<close> of the model.
\<close>

definition generateSignature :: "(string \<Rightarrow> string) \<Rightarrow> jsobject \<Rightarrow> string \<Rightarrow> string" where
  "generateSignature sha512 fields secret =
     (let sortedFields = sortFields fields;
          queryString = stringify sortedFields;
          signatureString = queryString @ secret
      in sha512 signatureString)"

definition verifySignature ::
  "(string \<Rightarrow> string) \<Rightarrow> jsobject \<Rightarrow> string \<Rightarrow> string \<Rightarrow> bool" where
  "verifySignature sha512 fields receivedSign secret =
     (let calculatedSign = generateSignature sha512 fields secret in
      calculatedSign = receivedSign)"

text \<open>The local \<^verbatim>\<open>signatureString\<close> of \<^verbatim>\<open>generateSignature\<close>: what is digested.\<close>

definition signatureString :: "jsobject \<Rightarrow> string \<Rightarrow> string" where
  "signatureString fields secret = stringify (sortFields fields) @ secret"

text \<open>The digest does not confuse the two strings \<open>x\<close> and \<open>y\<close>.\<close>

definition no_collision :: "(string \<Rightarrow> string) \<Rightarrow> string \<Rightarrow> string \<Rightarrow> bool" where
  "no_collision sha512 x y = (sha512 x = sha512 y \<longrightarrow> x = y)"

subsection \<open>The signing algorithm as the specification words it\<close>

text \<open>
  Sort the entries by key, bytewise ascending (on the strings of the model the order of
  the UTF-8 bytes is the order of the code units); serialise them as
  \<^verbatim>\<open>key1=value1&key2=value2\<close> with percent-encoding; append the secret; digest.
\<close>

definition serialize_spec :: "jsobject \<Rightarrow> string" where
  "serialize_spec fields =
     join_amp (map (\<lambda>(k, v). qsEscape k @ ''='' @ qsEscape v) (sort_key fst fields))"

definition sign_spec :: "(string \<Rightarrow> string) \<Rightarrow> jsobject \<Rightarrow> string \<Rightarrow> string" where
  "sign_spec sha512 fields secret = sha512 (serialize_spec fields @ secret)"

section \<open>The scenario service\<close>

text \<open>
  The string-literal unions of \<^verbatim>\<open>payment.types.ts\<close> are datatypes. A payment status
  is the one-character string the program stores: \<open>''0''\<close> PENDING, \<open>''1''\<close> SUCCESS,
  \<open>''2''\<close> FAIL, \<open>''4''\<close> PROCESSING. Delays are milliseconds.
\<close>

datatype Outcome = SUCCESS | FAIL

datatype DefaultOutcome = Fixed Outcome | RANDOM

datatype Condition = Amount_ends_with | Network | Amount_equals

record ScenarioRule =
  condition :: Condition
  rule_value :: string
  outcome :: Outcome

record ScenarioConfig =
  defaultOutcome :: DefaultOutcome
  callbackDelay :: int
  processingDelay :: int
  rules :: "ScenarioRule list"

text \<open>\<^verbatim>\<open>Partial<ScenarioConfig>\<close>: \<open>None\<close> is a field the request leaves out.\<close>

record ScenarioUpdate =
  upd_defaultOutcome :: "DefaultOutcome option"
  upd_callbackDelay :: "int option"
  upd_processingDelay :: "int option"
  upd_rules :: "ScenarioRule list option"

definition endsWith :: "string \<Rightarrow> string \<Rightarrow> bool" where
  "endsWith s t = (length t \<le> length s \<and> drop (length s - length t) s = t)"

fun ruleMatches :: "ScenarioRule \<Rightarrow> string \<Rightarrow> string \<Rightarrow> bool" where
  "ruleMatches rule amount network =
     (case condition rule of
        Amount_ends_with \<Rightarrow> endsWith amount (rule_value rule)
      | Amount_equals \<Rightarrow> amount = rule_value rule
      | Network \<Rightarrow> network = rule_value rule)"

text \<open>The \<^verbatim>\<open>for\<close> loop over the rules: the status of the first rule that matches.\<close>

fun check_rules :: "ScenarioRule list \<Rightarrow> string \<Rightarrow> string \<Rightarrow> string option" where
  "check_rules [] amount network = None"
| "check_rules (rule # rest) amount network =
     (if ruleMatches rule amount network
      then Some (if outcome rule = SUCCESS then ''1'' else ''2'')
      else check_rules rest amount network)"

text \<open>
  \<open>rnd\<close> is the number \<^verbatim>\<open>Math.random()\<close> returns when it is called. The merchant
  token is a parameter the function never reads.
\<close>

definition getOutcomeForTransaction ::
  "ScenarioConfig \<Rightarrow> real \<Rightarrow> string \<Rightarrow> string \<Rightarrow> string \<Rightarrow> string" where
  "getOutcomeForTransaction scenarioConfig rnd amount network merchantToken =
     (case check_rules (rules scenarioConfig) amount network of
        Some result \<Rightarrow> result
      | None \<Rightarrow>
          (case defaultOutcome scenarioConfig of
             RANDOM \<Rightarrow> (if rnd > 0.5 then ''1'' else ''2'')
           | Fixed out \<Rightarrow> (if out = SUCCESS then ''1'' else ''2'')))"

text \<open>\<^verbatim>\<open>determinePaymentOutcome\<close> of the payment service hands its arguments to the scenario service.\<close>

definition determinePaymentOutcome ::
  "ScenarioConfig \<Rightarrow> real \<Rightarrow> string \<Rightarrow> string \<Rightarrow> string \<Rightarrow> string" where
  "determinePaymentOutcome scenarioConfig rnd amount network merchantToken =
     getOutcomeForTransaction scenarioConfig rnd amount network merchantToken"

definition setScenario :: "ScenarioConfig \<Rightarrow> ScenarioUpdate \<Rightarrow> ScenarioConfig" where
  "setScenario scenarioConfig scenario =
     \<lparr> defaultOutcome = (case upd_defaultOutcome scenario of
                           Some v \<Rightarrow> v | None \<Rightarrow> defaultOutcome scenarioConfig),
       callbackDelay = (case upd_callbackDelay scenario of
                          Some v \<Rightarrow> v | None \<Rightarrow> callbackDelay scenarioConfig),
       processingDelay = (case upd_processingDelay scenario of
                            Some v \<Rightarrow> v | None \<Rightarrow> processingDelay scenarioConfig),
       rules = (case upd_rules scenario of
                  Some v \<Rightarrow> v | None \<Rightarrow> rules scenarioConfig) \<rparr>"

definition addRule :: "ScenarioConfig \<Rightarrow> ScenarioRule \<Rightarrow> ScenarioConfig" where
  "addRule scenarioConfig rule = scenarioConfig\<lparr>rules := rules scenarioConfig @ [rule]\<rparr>"

definition clearRules :: "ScenarioConfig \<Rightarrow> ScenarioConfig" where
  "clearRules scenarioConfig = scenarioConfig\<lparr>rules := []\<rparr>"

text \<open>The static configuration \<^verbatim>\<open>config.payment\<close>, read from the environment at start.\<close>

record PaymentConfig =
  payment_outcome :: DefaultOutcome
  payment_callbackDelay :: int
  payment_processingDelay :: int

text \<open>The constructor of the service.\<close>

definition initialScenario :: "PaymentConfig \<Rightarrow> ScenarioConfig" where
  "initialScenario payment =
     \<lparr> defaultOutcome = payment_outcome payment,
       callbackDelay = payment_callbackDelay payment,
       processingDelay = payment_processingDelay payment,
       rules = [] \<rparr>"

section \<open>Transactions and the payment service\<close>

subsection \<open>Decimal amounts\<close>

text \<open>
  Modelled from the spec: the \<^verbatim>\<open>Decimal\<close> type of the \<^verbatim>\<open>amount\<close> column (the
  database schema is not among the sources). An amount enters as a string with exactly
  two fractional digits (\<^verbatim>\<open>/^\d+\.\d{2}$/\<close> in \<^verbatim>\<open>paymentRequestSchema\<close>) and the
  stored record preserves it verbatim: \<open>Digits whole cents\<close> holds the digits before and
  after the point, and \<^verbatim>\<open>toString()\<close> gives back the string of the request. For a
  string that is not of this form, which the request validation rejects before the
  service is called, the conversion is \<open>None\<close>.
\<close>

datatype Decimal = Digits string string

definition Decimal_of_string :: "string \<Rightarrow> Decimal option" where
  "Decimal_of_string s =
     (let n = length s in
      if 4 \<le> n \<and> s ! (n - 3) = CHR ''.'' \<and> list_all is_digit (take (n - 3) s)
         \<and> list_all is_digit (drop (n - 2) s)
      then Some (Digits (take (n - 3) s) (drop (n - 2) s))
      else None)"

definition Decimal_toString :: "Decimal \<Rightarrow> string" where
  "Decimal_toString d = (case d of Digits whole cents \<Rightarrow> whole @ ''.'' @ cents)"

text \<open>
  \<^verbatim>\<open>toFixed(k)\<close> for a \<open>k\<close> that is not below the number of fractional digits stored,
  which is so in both calls of the services (two digits in the callback, six in the
  query): the missing digits are zeros.
\<close>

definition toFixed :: "nat \<Rightarrow> Decimal \<Rightarrow> string" where
  "toFixed k d =
     (case d of Digits whole cents \<Rightarrow>
        whole @ ''.'' @ cents @ replicate (k - length cents) CHR ''0'')"

text \<open>An amount as a request gives it: digits, a point, two digits.\<close>

definition two_decimals :: "Decimal \<Rightarrow> bool" where
  "two_decimals d =
     (case d of Digits whole cents \<Rightarrow>
        whole \<noteq> [] \<and> list_all is_digit whole \<and> list_all is_digit cents \<and> length cents = 2)"

text \<open>
  The decimal numeral of a natural number, which is what \<^verbatim>\<open>toString()\<close> gives for
  the whole seconds of a time.
\<close>

definition digit_char :: "nat \<Rightarrow> char" where
  "digit_char d = ''0123456789'' ! (d mod 10)"

function show_nat :: "nat \<Rightarrow> string" where
  "show_nat n = (if n < 10 then [digit_char n] else show_nat (n div 10) @ [digit_char (n mod 10)])"
  by pat_completeness auto
termination
  by (relation "measure (\<lambda>n. n)") auto

subsection \<open>Records of the store\<close>

text \<open>
  Modelled from the spec: the \<^verbatim>\<open>Transaction\<close> and \<^verbatim>\<open>Merchant\<close> records of the
  database client, with the fields the services read and write. Times are milliseconds
  since the epoch. The fields of the request that the services only store are kept
  together in \<open>customer\<close>. The fields of a \<^verbatim>\<open>PaymentRequest\<close> carry the prefix
  \<open>req_\<close>, those of a \<^verbatim>\<open>TransactionQuery\<close> the prefix \<open>q_\<close>.
\<close>

record CustomerFields =
  subject :: string
  customerIp :: string
  customerFirstName :: string
  customerLastName :: string
  customerEmail :: string
  customerPhone :: string
  customerAddress :: "string option"
  customerState :: "string option"
  customerCountry :: "string option"
  customerPostalCode :: "string option"

record Transaction =
  id :: string
  merchantId :: string
  merchantReference :: string
  requestReference :: string
  currency :: string
  amount :: Decimal
  network :: string
  customer :: CustomerFields
  notifyUrl :: string
  returnUrl :: "string option"
  status :: string
  tx_type :: string
  createdTime :: nat
  completedTime :: "nat option"
  callbackSent :: bool
  callbackAttempts :: nat
  lastCallbackAt :: "nat option"

record Merchant =
  merchant_id :: string
  merchantToken :: string
  signatureSecret :: string
  active :: bool

record PaymentRequest =
  req_merchant_reference :: string
  req_currency :: string
  req_amount :: string
  req_network :: string
  req_customer :: CustomerFields
  req_notify_url :: string
  req_return_url :: "string option"
  req_sign :: string

datatype json = JString string | JNumber int | JNull

record TransactionQuery =
  q_type :: string
  q_merchant_reference :: string
  q_request_reference :: string
  q_status :: string
  q_currency :: string
  q_amount :: string
  q_created_time :: string
  q_completed_time :: "string option"

datatype error = Failed_to_create_transaction | Failed_to_update_transaction_status
  | Record_to_update_not_found

subsection \<open>PaymentService\<close>

text \<open>
  The store is the list of its transactions. The identifier, the request reference and
  the creation time of a new record are given by the database: they are the parameters
  \<open>new_id\<close>, \<open>new_reference\<close> and \<open>now\<close>.
\<close>

definition createTransaction ::
  "Transaction list \<Rightarrow> string \<Rightarrow> string \<Rightarrow> nat \<Rightarrow> PaymentRequest \<Rightarrow> string
     \<Rightarrow> error + (Transaction \<times> Transaction list)" where
  "createTransaction store new_id new_reference now data merchant =
     (case Decimal_of_string (req_amount data) of
        None \<Rightarrow> Inl Failed_to_create_transaction
      | Some a \<Rightarrow>
          (let transaction =
             \<lparr> id = new_id,
               merchantId = merchant,
               merchantReference = req_merchant_reference data,
               requestReference = new_reference,
               currency = req_currency data,
               amount = a,
               network = req_network data,
               customer = req_customer data,
               notifyUrl = req_notify_url data,
               returnUrl = req_return_url data,
               status = ''0'',
               tx_type = ''Sale'',
               createdTime = now,
               completedTime = None,
               callbackSent = False,
               callbackAttempts = 0,
               lastCallbackAt = None \<rparr>
           in Inr (transaction, store @ [transaction])))"

text \<open>
  \<^verbatim>\<open>updateTransactionStatus\<close>: the update of the record with this request reference
  fails when there is none. The optional \<open>completedTime\<close> argument is \<open>None\<close> when the
  caller leaves it out.
\<close>

definition updateTransactionStatus ::
  "Transaction list \<Rightarrow> nat \<Rightarrow> string \<Rightarrow> string \<Rightarrow> nat option \<Rightarrow> error + Transaction list" where
  "updateTransactionStatus store now reference new_status completed =
     (if list_ex (\<lambda>tx. requestReference tx = reference) store
      then Inr (map (\<lambda>tx. if requestReference tx = reference
                           then tx\<lparr> status := new_status,
                                   completedTime :=
                                     (case completed of
                                        Some t \<Rightarrow> Some t
                                      | None \<Rightarrow> (if new_status = ''1'' \<or> new_status = ''2''
                                                 then Some now else None)) \<rparr>
                           else tx) store)
      else Inl Failed_to_update_transaction_status)"

definition TransactionQuery_of :: "Transaction \<Rightarrow> TransactionQuery" where
  "TransactionQuery_of tx =
     \<lparr> q_type = tx_type tx,
       q_merchant_reference = merchantReference tx,
       q_request_reference = requestReference tx,
       q_status = status tx,
       q_currency = currency tx,
       q_amount = toFixed 6 (amount tx),
       q_created_time = show_nat (createdTime tx div 1000),
       q_completed_time = (case completedTime tx of
                            Some t \<Rightarrow> Some (show_nat (t div 1000))
                          | None \<Rightarrow> None) \<rparr>"

text \<open>
  \<^verbatim>\<open>findMany\<close> with \<^verbatim>\<open>where: { merchantReference }\<close> and
  \<^verbatim>\<open>orderBy: { createdTime: 'asc' }\<close>, then the mapping to query records.
\<close>

definition getTransactionsByMerchantReference ::
  "Transaction list \<Rightarrow> string \<Rightarrow> TransactionQuery list" where
  "getTransactionsByMerchantReference store reference =
     (let transactions = sort_key createdTime (filter (\<lambda>tx. merchantReference tx = reference) store)
      in map TransactionQuery_of transactions)"

text \<open>The body \<^verbatim>\<open>res.json(transactions)\<close> of the query route: one object per record.\<close>

definition json_of_query :: "TransactionQuery \<Rightarrow> (string \<times> json) list" where
  "json_of_query q =
     [ (''type'', JString (q_type q)),
       (''merchant_reference'', JString (q_merchant_reference q)),
       (''request_reference'', JString (q_request_reference q)),
       (''status'', JString (q_status q)),
       (''currency'', JString (q_currency q)),
       (''amount'', JString (q_amount q)),
       (''created_time'', JString (q_created_time q)),
       (''completed_time'', (case q_completed_time q of Some t \<Rightarrow> JString t | None \<Rightarrow> JNull)) ]"

definition payment_query_response :: "Transaction list \<Rightarrow> string \<Rightarrow> (string \<times> json) list list" where
  "payment_query_response store merchant_reference =
     map json_of_query (getTransactionsByMerchantReference store merchant_reference)"

section \<open>The process: store, clock, timers and the scenario in force\<close>

text \<open>
  What the program does to the outside is kept in the state: the requests it posts and
  the pauses it makes are appended to \<open>trace\<close>, a pause moves the clock, and
  \<^verbatim>\<open>setTimeout\<close> appends a timer with the delay it was given. The closure of a timer is
  a \<open>task\<close> with the values it captured.
\<close>

datatype http_result = Response nat | No_response

datatype event = Post string string | Sleep nat

definition is_post :: "event \<Rightarrow> bool" where
  "is_post e = (case e of Post url body \<Rightarrow> True | Sleep ms \<Rightarrow> False)"

datatype task =
    Processing_task Transaction PaymentRequest string
  | Final_task Transaction string
  | Callback_task string

record timer =
  scheduled_at :: nat
  delay :: int
  task :: task

record world =
  transactions :: "Transaction list"
  merchants :: "Merchant list"
  scenario :: ScenarioConfig
  clock :: nat
  timers :: "timer list"
  trace :: "event list"

definition setTimeout :: "world \<Rightarrow> task \<Rightarrow> int \<Rightarrow> world" where
  "setTimeout w callback ms =
     w\<lparr>timers := timers w @ [\<lparr>scheduled_at = clock w, delay = ms, task = callback\<rparr>]\<rparr>"

text \<open>
  The platform runs a timer whose delay is less than 1 or more than 2147483647 after
  1 millisecond.
\<close>

definition timer_due :: "timer \<Rightarrow> nat" where
  "timer_due t =
     scheduled_at t + (if delay t < 1 \<or> delay t > 2147483647 then 1 else nat (delay t))"

definition sleep :: "world \<Rightarrow> nat \<Rightarrow> world" where
  "sleep w ms = w\<lparr>clock := clock w + ms, trace := trace w @ [Sleep ms]\<rparr>"

section \<open>The callback service\<close>

definition buildCallbackPayload :: "(string \<Rightarrow> string) \<Rightarrow> Transaction \<Rightarrow> string \<Rightarrow> jsobject" where
  "buildCallbackPayload sha512 transaction secret =
     (let flds = [ (''amount'', toFixed 2 (amount transaction)),
                   (''currency'', currency transaction),
                   (''merchant_reference'', merchantReference transaction),
                   (''request_reference'', requestReference transaction),
                   (''status'', status transaction) ];
          signature = generateSignature sha512 flds secret
      in obj_set flds ''sign'' signature)"

text \<open>\<^verbatim>\<open>prisma.transaction.update\<close> by identifier: \<open>None\<close> when there is no such record.\<close>

definition update_transaction ::
  "Transaction list \<Rightarrow> string \<Rightarrow> (Transaction \<Rightarrow> Transaction) \<Rightarrow> Transaction list option" where
  "update_transaction store tid f =
     (if list_ex (\<lambda>tx. id tx = tid) store
      then Some (map (\<lambda>tx. if id tx = tid then f tx else tx) store)
      else None)"

text \<open>
  The merchant of a callback: the one that came with the transaction, and when there is
  none the one found by \<^verbatim>\<open>merchantId\<close>.
\<close>

definition callback_merchant :: "world \<Rightarrow> Transaction \<Rightarrow> Merchant option \<Rightarrow> Merchant option" where
  "callback_merchant w transaction included =
     (case included of
        Some m \<Rightarrow> Some m
      | None \<Rightarrow> find (\<lambda>m. merchant_id m = merchantId transaction) (merchants w))"

definition maxAttempts :: nat where
  "maxAttempts = 3"

text \<open>
  One turn of the loop of \<^verbatim>\<open>sendCallback\<close>, for the attempt number \<open>attempt\<close>
  (already incremented). \<open>respond n\<close> is what the \<open>n\<close>-th request of this call meets:
  a response with its status code, or none (a timeout, a network error); only the status
  200 passes \<^verbatim>\<open>validateStatus\<close>. The outcome is \<open>Inl r\<close> when the function leaves
  the loop with the result \<open>r\<close> (an error when the update in the \<^verbatim>\<open>catch\<close> block
  throws), and \<open>Inr w\<close> when the loop goes on.
\<close>

definition callback_attempt ::
  "(string \<Rightarrow> string) \<Rightarrow> (nat \<Rightarrow> http_result) \<Rightarrow> Transaction \<Rightarrow> Merchant option \<Rightarrow> nat \<Rightarrow> world
     \<Rightarrow> ((error + bool) \<times> world) + world" where
  "callback_attempt sha512 respond transaction included attempt w =
     (let merchant = callback_merchant w transaction included
      in case merchant of
           None \<Rightarrow> Inl (Inr False, w)
         | Some m \<Rightarrow>
             (let payload = buildCallbackPayload sha512 transaction (signatureSecret m);
                  w1 = w\<lparr>trace := trace w @ [Post (notifyUrl transaction) (stringify payload)]\<rparr>;
                  sent = (if respond attempt = Response 200
                          then update_transaction (transactions w1) (id transaction)
                                 (\<lambda>tx. tx\<lparr> callbackSent := True, callbackAttempts := attempt,
                                           lastCallbackAt := Some (clock w1) \<rparr>)
                          else None)
              in case sent of
                   Some txs \<Rightarrow> Inl (Inr True, w1\<lparr>transactions := txs\<rparr>)
                 | None \<Rightarrow>
                     (case update_transaction (transactions w1) (id transaction)
                             (\<lambda>tx. tx\<lparr> callbackAttempts := attempt,
                                       lastCallbackAt := Some (clock w1) \<rparr>) of
                        None \<Rightarrow> Inl (Inl Record_to_update_not_found, w1)
                      | Some txs \<Rightarrow>
                          (let w2 = w1\<lparr>transactions := txs\<rparr>
                           in Inr (if attempt < maxAttempts
                                   then sleep w2 (2 ^ attempt * 1000) else w2)))))"

function sendCallback_loop ::
  "(string \<Rightarrow> string) \<Rightarrow> (nat \<Rightarrow> http_result) \<Rightarrow> Transaction \<Rightarrow> Merchant option \<Rightarrow> nat \<Rightarrow> world
     \<Rightarrow> (error + bool) \<times> world" where
  "sendCallback_loop sha512 respond transaction included attempt w =
     (if attempt < maxAttempts
      then (case callback_attempt sha512 respond transaction included (attempt + 1) w of
              Inl result \<Rightarrow> result
            | Inr w' \<Rightarrow> sendCallback_loop sha512 respond transaction included (attempt + 1) w')
      else (Inr False, w))"
  by pat_completeness auto
termination
  by (relation "measure (\<lambda>(sha512, respond, transaction, included, attempt, w). maxAttempts - attempt)")
     auto

definition sendCallback ::
  "(string \<Rightarrow> string) \<Rightarrow> (nat \<Rightarrow> http_result) \<Rightarrow> Transaction \<Rightarrow> Merchant option \<Rightarrow> world
     \<Rightarrow> (error + bool) \<times> world" where
  "sendCallback sha512 respond transaction included w =
     sendCallback_loop sha512 respond transaction included 0 w"

text \<open>\<^verbatim>\<open>findUnique\<close> with \<^verbatim>\<open>include: { merchant: true }\<close>.\<close>

definition find_with_merchant :: "world \<Rightarrow> string \<Rightarrow> (Transaction \<times> Merchant option) option" where
  "find_with_merchant w transactionId =
     (case find (\<lambda>tx. id tx = transactionId) (transactions w) of
        None \<Rightarrow> None
      | Some tx \<Rightarrow> Some (tx, find (\<lambda>m. merchant_id m = merchantId tx) (merchants w)))"

definition triggerCallbackManually ::
  "(string \<Rightarrow> string) \<Rightarrow> (nat \<Rightarrow> http_result) \<Rightarrow> world \<Rightarrow> string \<Rightarrow> bool \<times> world" where
  "triggerCallbackManually sha512 respond w transactionId =
     (case find_with_merchant w transactionId of
        None \<Rightarrow> (False, w)
      | Some (transaction, included) \<Rightarrow>
          (case sendCallback sha512 respond transaction included w of
             (Inl e, w') \<Rightarrow> (False, w')
           | (Inr sent, w') \<Rightarrow> (sent, w')))"

definition scheduleCallback :: "world \<Rightarrow> string \<Rightarrow> int \<Rightarrow> world" where
  "scheduleCallback w transactionId delayMs = setTimeout w (Callback_task transactionId) delayMs"

section \<open>The payment page route and its timers\<close>

text \<open>
  The handler of \<^verbatim>\<open>POST /app/page/:merchantToken\<close>, after the validation middleware:
  it creates the transaction and sets the first timer. The page or JSON body it answers
  with has no part in what follows and is left out. \<open>config\<close> is \<^verbatim>\<open>config.payment\<close>.
\<close>

definition payment_page_handler ::
  "PaymentConfig \<Rightarrow> world \<Rightarrow> string \<Rightarrow> string \<Rightarrow> PaymentRequest \<Rightarrow> Merchant \<Rightarrow> error + world" where
  "payment_page_handler config w new_id new_reference body merchant =
     (case createTransaction (transactions w) new_id new_reference (clock w) body
             (merchant_id merchant) of
        Inl e \<Rightarrow> Inl e
      | Inr (transaction, txs) \<Rightarrow>
          Inr (setTimeout (w\<lparr>transactions := txs\<rparr>)
                 (Processing_task transaction body (merchantToken merchant))
                 (payment_processingDelay config)))"

text \<open>
  The body of a timer. When an update of the status throws, the rest of the closure does
  not run. \<open>rnd\<close> and \<open>respond\<close> are as above.
\<close>

definition run_task ::
  "PaymentConfig \<Rightarrow> (string \<Rightarrow> string) \<Rightarrow> real \<Rightarrow> (nat \<Rightarrow> http_result) \<Rightarrow> world \<Rightarrow> task \<Rightarrow> world" where
  "run_task config sha512 rnd respond w t =
     (case t of
        Processing_task transaction body token \<Rightarrow>
          (case updateTransactionStatus (transactions w) (clock w)
                  (requestReference transaction) ''4'' None of
             Inl e \<Rightarrow> w
           | Inr txs \<Rightarrow>
               (let w1 = w\<lparr>transactions := txs\<rparr>;
                    finalStatus = determinePaymentOutcome (scenario w1) rnd
                                    (req_amount body) (req_network body) token
                in setTimeout w1 (Final_task transaction finalStatus)
                     (payment_callbackDelay config - payment_processingDelay config)))
      | Final_task transaction finalStatus \<Rightarrow>
          (case updateTransactionStatus (transactions w) (clock w)
                  (requestReference transaction) finalStatus (Some (clock w)) of
             Inl e \<Rightarrow> w
           | Inr txs \<Rightarrow> scheduleCallback (w\<lparr>transactions := txs\<rparr>) (id transaction) 0)
      | Callback_task transactionId \<Rightarrow>
          (case find_with_merchant w transactionId of
             None \<Rightarrow> w
           | Some (transaction, included) \<Rightarrow>
               snd (sendCallback sha512 respond transaction included w)))"

text \<open>
  The timer that is due first (the one set first, among equals) is taken off the list,
  the clock moves to its time, and its task runs.
\<close>

fun pick_next :: "timer list \<Rightarrow> (timer \<times> timer list) option" where
  "pick_next [] = None"
| "pick_next (t # ts) =
     (case pick_next ts of
        None \<Rightarrow> Some (t, [])
      | Some (m, rest) \<Rightarrow>
          (if timer_due t \<le> timer_due m then Some (t, ts) else Some (m, t # rest)))"

definition fire_next ::
  "PaymentConfig \<Rightarrow> (string \<Rightarrow> string) \<Rightarrow> real \<Rightarrow> (nat \<Rightarrow> http_result) \<Rightarrow> world \<Rightarrow> world" where
  "fire_next config sha512 rnd respond w =
     (case pick_next (timers w) of
        None \<Rightarrow> w
      | Some (t, rest) \<Rightarrow>
          run_task config sha512 rnd respond
            (w\<lparr>timers := rest, clock := max (clock w) (timer_due t)\<rparr>) (task t))"

text \<open>\<^verbatim>\<open>POST /admin/scenarios\<close> with a body that passed \<^verbatim>\<open>scenarioSchema\<close>.\<close>

definition admin_scenarios :: "world \<Rightarrow> ScenarioUpdate \<Rightarrow> world" where
  "admin_scenarios w update = w\<lparr>scenario := setScenario (scenario w) update\<rparr>"

section \<open>Example data\<close>

definition example_rules :: "ScenarioRule list" where
  "example_rules = [\<lparr>condition = Network, rule_value = ''CUP'', outcome = SUCCESS\<rparr>,
                    \<lparr>condition = Amount_equals, rule_value = ''50.00'', outcome = FAIL\<rparr>,
                    \<lparr>condition = Amount_ends_with, rule_value = ''.00'', outcome = SUCCESS\<rparr>]"

definition example_customer :: CustomerFields where
  "example_customer =
     \<lparr> subject = ''Test payment'', customerIp = ''123.123.123.123'',
       customerFirstName = ''John'', customerLastName = ''Doe'',
       customerEmail = ''john@example.com'', customerPhone = ''0123123123'',
       customerAddress = None, customerState = None, customerCountry = None,
       customerPostalCode = None \<rparr>"

definition example_merchant :: Merchant where
  "example_merchant =
     \<lparr> merchant_id = ''m-1'', merchantToken = ''token-1'', signatureSecret = ''secret-1'',
       active = True \<rparr>"

definition example_transaction :: Transaction where
  "example_transaction =
     \<lparr> id = ''tx-1'', merchantId = ''m-1'', merchantReference = ''ORDER-1'',
       requestReference = ''req-1'', currency = ''HKD'', amount = Digits ''99'' ''99'',
       network = ''Alipay'', customer = example_customer,
       notifyUrl = ''https://shop.example/notify'', returnUrl = None,
       status = ''2'', tx_type = ''Sale'', createdTime = 1700000000000,
       completedTime = Some 1700000003000, callbackSent = False, callbackAttempts = 0,
       lastCallbackAt = None \<rparr>"

definition example_scenario :: ScenarioConfig where
  "example_scenario =
     \<lparr> defaultOutcome = Fixed SUCCESS, callbackDelay = 3000, processingDelay = 1000,
       rules = [] \<rparr>"

definition example_world :: world where
  "example_world =
     \<lparr> transactions = [example_transaction], merchants = [example_merchant],
       scenario = example_scenario, clock = 1700000003000, timers = [], trace = [] \<rparr>"

text \<open>The example transaction after a delivery in which every attempt failed.\<close>

definition example_undelivered :: world where
  "example_undelivered =
     snd (sendCallback (\<lambda>s. s) (\<lambda>n::nat. Response 500) example_transaction (Some example_merchant)
            example_world)"

definition example_config :: PaymentConfig where
  "example_config =
     \<lparr> payment_outcome = Fixed SUCCESS, payment_callbackDelay = 3000,
       payment_processingDelay = 1000 \<rparr>"

definition example_request :: PaymentRequest where
  "example_request =
     \<lparr> req_merchant_reference = ''ORDER-2'', req_currency = ''HKD'', req_amount = ''99.99'',
       req_network = ''Alipay'', req_customer = example_customer,
       req_notify_url = ''https://shop.example/notify'', req_return_url = None,
       req_sign = ''signature'' \<rparr>"

definition example_start :: world where
  "example_start =
     \<lparr> transactions = [], merchants = [example_merchant],
       scenario = initialScenario example_config, clock = 1700000000000, timers = [],
       trace = [] \<rparr>"

text \<open>The world after the payment page request for the example request.\<close>

definition example_created :: "PaymentConfig \<Rightarrow> world \<Rightarrow> world" where
  "example_created config w =
     (case payment_page_handler config w ''tx-2'' ''req-2'' example_request example_merchant of
        Inr w' \<Rightarrow> w'
      | Inl e \<Rightarrow> w)"

definition fail_99 :: ScenarioUpdate where
  "fail_99 =
     \<lparr> upd_defaultOutcome = None, upd_callbackDelay = None, upd_processingDelay = None,
       upd_rules = Some [\<lparr>condition = Amount_ends_with, rule_value = ''.99'', outcome = FAIL\<rparr>] \<rparr>"

definition example_pending :: Transaction where
  "example_pending =
     \<lparr> id = ''tx-2'', merchantId = ''m-1'', merchantReference = ''ORDER-2'',
       requestReference = ''req-2'', currency = ''HKD'', amount = Digits ''99'' ''99'',
       network = ''Alipay'', customer = example_customer,
       notifyUrl = ''https://shop.example/notify'', returnUrl = None,
       status = ''0'', tx_type = ''Sale'', createdTime = 1700000000000,
       completedTime = None, callbackSent = False, callbackAttempts = 0,
       lastCallbackAt = None \<rparr>"

definition example_in_processing :: world where
  "example_in_processing =
     fire_next example_config (\<lambda>s. s) 0 (\<lambda>n::nat. Response 200)
       (example_created example_config example_start)"

definition slow_delays :: ScenarioUpdate where
  "slow_delays =
     \<lparr> upd_defaultOutcome = None, upd_callbackDelay = Some 9000, upd_processingDelay = Some 5000,
       upd_rules = None \<rparr>"

definition late_config :: PaymentConfig where
  "late_config =
     \<lparr> payment_outcome = Fixed SUCCESS, payment_callbackDelay = 1000,
       payment_processingDelay = 3000 \<rparr>"

section \<open>Properties of the signature service\<close>

lemma nat_less_16_cases:
  "(a::nat) < 16 \<Longrightarrow> a = 0 \<or> a = 1 \<or> a = 2 \<or> a = 3 \<or> a = 4 \<or> a = 5 \<or> a = 6 \<or> a = 7
     \<or> a = 8 \<or> a = 9 \<or> a = 10 \<or> a = 11 \<or> a = 12 \<or> a = 13 \<or> a = 14 \<or> a = 15"
  by arith

lemma hex_val_hex_upper: "a < 16 \<Longrightarrow> hex_val (hex_upper a) = a"
  by (drule nat_less_16_cases) (elim disjE; simp add: hex_upper_def hex_val_def)

lemma hex_upper_inj: "a < 16 \<Longrightarrow> b < 16 \<Longrightarrow> hex_upper a = hex_upper b \<Longrightarrow> a = b"
  by (metis hex_val_hex_upper)

lemma of_char_lt_256: "(of_char c :: nat) < 256"
  by (cases c) (simp)

lemma hexTable_inj:
  assumes h: "hexTable m = hexTable n" and lm: "m < 256" and ln: "n < 256"
  shows "m = n"
proof -
  have 1: "hex_upper (m div 16) = hex_upper (n div 16)" and 2: "hex_upper m = hex_upper n"
    using h by (simp_all add: hexTable_def)
  have "m div 16 < 16" "n div 16 < 16" using lm ln by arith+
  then have d: "m div 16 = n div 16" using 1 by (intro hex_upper_inj)
  have "hex_upper (m mod 16) = hex_upper (n mod 16)" using 2 by (simp add: hex_upper_def)
  then have e: "m mod 16 = n mod 16" by (intro hex_upper_inj) auto
  show "m = n" using d e by (metis div_mult_mod_eq)
qed

lemma noEscape_percent: "noEscape c \<Longrightarrow> c \<noteq> CHR ''%''"
  by (auto simp: noEscape_def)

lemma noEscape_amp: "noEscape c \<Longrightarrow> c \<noteq> CHR ''&''"
  by (auto simp: noEscape_def)

lemma noEscape_ascii: "noEscape c \<Longrightarrow> (of_char c :: nat) < 128"
  by (auto simp: noEscape_def Let_def)

text \<open>
  The three shapes of an escaped code unit: itself, one escaped byte below 128, or two
  escaped bytes of which the first is 194 or 195.
\<close>

lemma escape_char_cases:
  "(noEscape c \<and> escape_char c = [c])
   \<or> (\<not> noEscape c \<and> (of_char c :: nat) < 128 \<and> escape_char c = hexTable (of_char c))
   \<or> ((of_char c :: nat) \<ge> 128
       \<and> escape_char c = hexTable (192 + of_char c div 64) @ hexTable (128 + of_char c mod 64))"
  using noEscape_ascii[of c] by (auto simp: escape_char_def Let_def)

lemma hexTable_first_digit:
  "hexTable m @ r = hexTable n @ r' \<Longrightarrow> m < 256 \<Longrightarrow> n < 256 \<Longrightarrow> m = n \<and> r = r'"
proof -
  assume e: "hexTable m @ r = hexTable n @ r'" and lm: "m < 256" and ln: "n < 256"
  have "length (hexTable m) = length (hexTable n)" by (simp add: hexTable_def)
  with e have "hexTable m = hexTable n \<and> r = r'" by simp
  then show ?thesis using hexTable_inj[OF _ lm ln] by blast
qed

lemma escape_char_percent: "\<not> noEscape d \<Longrightarrow> \<exists>t. escape_char d = CHR ''%'' # t"
  by (simp add: escape_char_def Let_def hexTable_def)

lemma escape_char_noEscape: "noEscape c \<Longrightarrow> escape_char c = [c]"
  using noEscape_ascii[of c] by (simp add: escape_char_def Let_def)

lemma escape_char_inj:
  assumes e: "escape_char c @ r = escape_char d @ r'"
  shows "c = d \<and> r = r'"
proof -
  let ?m = "of_char c :: nat" and ?n = "of_char d :: nat"
  have lm: "?m < 256" and ln: "?n < 256" by (rule of_char_lt_256)+
  have hi: "\<And>x::nat. x < 256 \<Longrightarrow> 192 + x div 64 < 256" by arith
  have lo: "\<And>x::nat. 128 + x mod 64 < 256" by arith
  consider (uu) "noEscape c" "noEscape d"
    | (ux) "noEscape c" "\<not> noEscape d"
    | (xu) "\<not> noEscape c" "noEscape d"
    | (aa) "\<not> noEscape c" "\<not> noEscape d" "?m < 128" "?n < 128"
    | (ab) "\<not> noEscape c" "?m < 128" "?n \<ge> 128"
    | (ba) "\<not> noEscape d" "?n < 128" "?m \<ge> 128"
    | (bb) "?m \<ge> 128" "?n \<ge> 128"
    using noEscape_ascii[of c] noEscape_ascii[of d] by fastforce
  then show ?thesis
  proof cases
    case uu
    then show ?thesis using e by (simp add: escape_char_noEscape)
  next
    case ux
    then show ?thesis using e noEscape_percent[of c] escape_char_percent[of d]
      by (auto simp add: escape_char_noEscape)
  next
    case xu
    then show ?thesis using e noEscape_percent[of d] escape_char_percent[of c]
      by (auto simp add: escape_char_noEscape)
  next
    case aa
    then have "hexTable ?m @ r = hexTable ?n @ r'" using e by (simp add: escape_char_def Let_def)
    then have "?m = ?n \<and> r = r'" using lm ln by (rule hexTable_first_digit)
    then show ?thesis by simp
  next
    case ab
    then have "hexTable ?m @ r = hexTable (192 + ?n div 64) @ (hexTable (128 + ?n mod 64) @ r')"
      using e by (simp add: escape_char_def Let_def)
    then have "?m = 192 + ?n div 64" using lm hi[OF ln] by (blast dest: hexTable_first_digit)
    then show ?thesis using ab by simp
  next
    case ba
    then have "hexTable ?n @ r' = hexTable (192 + ?m div 64) @ (hexTable (128 + ?m mod 64) @ r)"
      using e by (simp add: escape_char_def Let_def)
    then have "?n = 192 + ?m div 64" using ln hi[OF lm] by (blast dest: hexTable_first_digit)
    then show ?thesis using ba by simp
  next
    case bb
    then have 1: "hexTable (192 + ?m div 64) @ (hexTable (128 + ?m mod 64) @ r)
                = hexTable (192 + ?n div 64) @ (hexTable (128 + ?n mod 64) @ r')"
      using e by (simp add: escape_char_def Let_def)
    have d: "192 + ?m div 64 = 192 + ?n div 64"
      and 2: "hexTable (128 + ?m mod 64) @ r = hexTable (128 + ?n mod 64) @ r'"
      using hexTable_first_digit[OF 1 hi[OF lm] hi[OF ln]] by blast+
    have m: "128 + ?m mod 64 = 128 + ?n mod 64" and r: "r = r'"
      using hexTable_first_digit[OF 2 lo lo] by blast+
    have "?m = ?n" using d m by (metis add_left_cancel div_mult_mod_eq)
    then show ?thesis using r by simp
  qed
qed

lemma escape_char_not_Nil: "escape_char c \<noteq> []"
  by (simp add: escape_char_def Let_def hexTable_def)

lemma qsEscape_inj: "qsEscape s = qsEscape t \<Longrightarrow> s = t"
proof (induction s arbitrary: t)
  case Nil
  then show ?case using escape_char_not_Nil by (cases t) (auto simp: qsEscape_def)
next
  case (Cons c s)
  show ?case
  proof (cases t)
    case Nil
    with Cons.prems show ?thesis using escape_char_not_Nil by (auto simp: qsEscape_def)
  next
    case (Cons d t')
    have e: "escape_char c @ qsEscape s = escape_char d @ qsEscape t'"
      using Cons.prems Cons by (simp add: qsEscape_def)
    then have "c = d \<and> qsEscape s = qsEscape t'" by (rule escape_char_inj)
    then show ?thesis using Cons.IH Cons by blast
  qed
qed


lemma hex_upper_not_amp: "hex_upper d \<noteq> CHR ''&''"
proof -
  have "hex_upper d \<in> set ''0123456789ABCDEF''"
    unfolding hex_upper_def by (rule nth_mem) simp
  then show ?thesis by auto
qed

lemma amp_notin_escape_char: "CHR ''&'' \<notin> set (escape_char c)"
  using noEscape_amp[of c]
  by (auto simp add: escape_char_def Let_def hexTable_def hex_upper_not_amp
        hex_upper_not_amp[THEN not_sym])

lemma amp_notin_qsEscape: "CHR ''&'' \<notin> set (qsEscape s)"
  using amp_notin_escape_char by (auto simp: qsEscape_def)

lemma amp_notin_pair_string: "CHR ''&'' \<notin> set (pair_string obj k)"
  using amp_notin_qsEscape by (simp add: pair_string_def)

lemma split_at_first:
  "c \<notin> set x \<Longrightarrow> c \<notin> set y \<Longrightarrow> x @ c # r = y @ c # r' \<Longrightarrow> x = y \<and> r = r'"
proof (induction x arbitrary: y)
  case Nil
  then show ?case by (cases y) auto
next
  case (Cons a x)
  then show ?case by (cases y) auto
qed

lemma join_amp_inj:
  "length xs = length ys \<Longrightarrow> \<forall>x\<in>set xs. CHR ''&'' \<notin> set x \<Longrightarrow> \<forall>y\<in>set ys. CHR ''&'' \<notin> set y
   \<Longrightarrow> join_amp xs = join_amp ys \<Longrightarrow> xs = ys"
proof (induction xs ys rule: list_induct2)
  case Nil
  then show ?case by simp
next
  case (Cons x xs y ys)
  show ?case
  proof (cases xs)
    case Nil
    then have "ys = []" using Cons.hyps by simp
    with Nil Cons.prems show ?thesis by simp
  next
    case xs: (Cons x2 xs')
    then obtain y2 ys' where ys: "ys = y2 # ys'" using Cons.hyps by (cases ys) auto
    have "x @ CHR ''&'' # join_amp xs = y @ CHR ''&'' # join_amp ys"
      using Cons.prems(3) xs ys by simp
    moreover have "CHR ''&'' \<notin> set x" "CHR ''&'' \<notin> set y" using Cons.prems by auto
    ultimately have "x = y \<and> join_amp xs = join_amp ys"
      by (intro split_at_first[of "CHR ''&''"])
    then show ?thesis using Cons.IH Cons.prems by auto
  qed
qed

lemma obj_set_keys: "k \<in> set (map fst obj) \<Longrightarrow> map fst (obj_set obj k v) = map fst obj"
  by (induction obj) (auto simp: obj_set_def)

lemma obj_get_obj_set:
  assumes "k \<in> set (map fst obj) \<or> k \<noteq> ''__proto__''"
  shows "obj_get (obj_set obj k v) k' = (if k' = k then Some v else obj_get obj k')"
proof (cases "k \<in> set (map fst obj)")
  case True
  have "map_of (map (\<lambda>(k', v'). if k' = k then (k', v) else (k', v')) obj) k'
        = (if k' = k then (if k \<in> set (map fst obj) then Some v else None) else map_of obj k')"
    by (induction obj) force+
  with True show ?thesis by (simp add: obj_set_def obj_get_def)
next
  case False
  then have "map_of obj k = None" by (simp add: map_of_eq_None_iff)
  with False assms show ?thesis
    by (auto simp: obj_set_def obj_get_def map_add_def split: option.splits)
qed

lemma foldl_copy:
  "distinct ks \<Longrightarrow> set ks \<inter> set (map fst acc) = {} \<Longrightarrow> \<forall>k\<in>set ks. obj_get f k \<noteq> None \<Longrightarrow>
   ''__proto__'' \<notin> set ks \<Longrightarrow>
   foldl (\<lambda>sortedFields key. case obj_get f key of Some v \<Rightarrow> obj_set sortedFields key v
                              | None \<Rightarrow> sortedFields) acc ks
   = acc @ map (\<lambda>k. (k, the (obj_get f k))) ks"
proof (induction ks arbitrary: acc)
  case Nil
  then show ?case by simp
next
  case (Cons k ks)
  obtain v where v: "obj_get f k = Some v" using Cons.prems(3) by auto
  have nk: "k \<notin> set (map fst acc)" using Cons.prems(2) by auto
  have np: "k \<noteq> ''__proto__''" using Cons.prems(4) by auto
  have s: "obj_set acc k v = acc @ [(k, v)]" using nk np by (simp add: obj_set_def)
  have "set ks \<inter> set (map fst (acc @ [(k, v)])) = {}" using Cons.prems(1,2) by auto
  then show ?case using Cons.IH[of "acc @ [(k, v)]"] Cons.prems v s by simp
qed

lemma set_Object_keys: "set (Object_keys obj) = set (map fst obj)"
  by (auto simp: Object_keys_def)

lemma distinct_Object_keys: "wf_object obj \<Longrightarrow> distinct (Object_keys obj)"
  by (auto simp: Object_keys_def wf_object_def)

lemma length_Object_keys: "length (Object_keys obj) = length obj"
  by (simp add: Object_keys_def comp_def sum_length_filter_compl)

lemma Object_keys_cong: "map fst a = map fst b \<Longrightarrow> Object_keys a = Object_keys b"
  by (simp add: Object_keys_def)

lemma sortFields_eq:
  assumes "wf_object f" "''__proto__'' \<notin> set (map fst f)"
  shows "sortFields f = map (\<lambda>k. (k, the (obj_get f k))) (sort (Object_keys f))"
proof -
  have "distinct (sort (Object_keys f))" using assms(1) distinct_Object_keys by simp
  moreover have "\<forall>k\<in>set (sort (Object_keys f)). obj_get f k \<noteq> None"
    by (auto simp: set_Object_keys obj_get_def map_of_eq_None_iff)
  moreover have "''__proto__'' \<notin> set (sort (Object_keys f))"
    using assms(2) by (simp add: set_Object_keys)
  ultimately show ?thesis
    unfolding sortFields_def Let_def using foldl_copy[of "sort (Object_keys f)" "[]" f] by simp
qed

lemma sortFields_keys:
  "wf_object f \<Longrightarrow> ''__proto__'' \<notin> set (map fst f) \<Longrightarrow>
   map fst (sortFields f) = sort (Object_keys f)"
  by (simp add: sortFields_eq comp_def)

lemma sortFields_get:
  assumes "wf_object f" "''__proto__'' \<notin> set (map fst f)" "k \<in> set (map fst f)"
  shows "obj_get (sortFields f) k = obj_get f k"
proof -
  have "k \<in> set (sort (Object_keys f))" using assms(3) by (simp add: set_Object_keys)
  moreover have "obj_get f k \<noteq> None" using assms(3) by (simp add: obj_get_def map_of_eq_None_iff)
  ultimately show ?thesis
    using assms(1,2) by (auto simp: sortFields_eq obj_get_def map_of_map_restrict)
qed

lemma query_differs:
  assumes wf: "wf_object f" and np: "''__proto__'' \<notin> set (map fst f)"
    and g: "obj_get f k = Some v" and ne: "v' \<noteq> v"
  shows "sortAndBuildQuery (obj_set f k v') \<noteq> sortAndBuildQuery f"
proof
  let ?f' = "obj_set f k v'"
  assume eq: "sortAndBuildQuery ?f' = sortAndBuildQuery f"
  have kin: "k \<in> set (map fst f)" using g by (force simp: obj_get_def dest: map_of_SomeD)
  have keys: "map fst ?f' = map fst f" using kin by (rule obj_set_keys)
  have wf': "wf_object ?f'" using wf keys by (simp add: wf_object_def)
  have np': "''__proto__'' \<notin> set (map fst ?f')" using np keys by simp
  have K: "Object_keys (sortFields ?f') = Object_keys (sortFields f)"
    using sortFields_keys[OF wf np] sortFields_keys[OF wf' np'] Object_keys_cong[OF keys]
    by (intro Object_keys_cong) simp
  let ?K = "Object_keys (sortFields f)"
  have "join_amp (map (pair_string (sortFields ?f')) ?K) = join_amp (map (pair_string (sortFields f)) ?K)"
    using eq K by (simp add: sortAndBuildQuery_def stringify_def)
  then have "map (pair_string (sortFields ?f')) ?K = map (pair_string (sortFields f)) ?K"
    by (intro join_amp_inj) (auto simp: amp_notin_pair_string)
  moreover have "k \<in> set ?K"
    using kin by (simp add: set_Object_keys sortFields_keys[OF wf np])
  ultimately have "pair_string (sortFields ?f') k = pair_string (sortFields f) k" by simp
  moreover have "obj_get (sortFields ?f') k = Some v'"
    using sortFields_get[OF wf' np', of k] kin keys by (simp add: obj_get_obj_set)
  moreover have "obj_get (sortFields f) k = Some v"
    using sortFields_get[OF wf np kin] g by simp
  ultimately have "qsEscape v' = qsEscape v" by (simp add: pair_string_def)
  then show False using ne qsEscape_inj by blast
qed

lemma generateSignature_eq:
  "generateSignature digest fs secret = digest (signatureString fs secret)"
  by (simp add: generateSignature_def signatureString_def)

text \<open>
  For a field map with no array-index key and no key \<^verbatim>\<open>__proto__\<close>,
  \<^verbatim>\<open>sortAndBuildQuery\<close> builds the string the specification describes.
\<close>

lemma Object_keys_plain:
  "\<forall>k \<in> set (map fst obj). \<not> is_array_index k \<Longrightarrow> Object_keys obj = map fst obj"
  by (simp add: Object_keys_def filter_empty_conv filter_id_conv comp_def)

lemma sorted_keys_unique:
  assumes "distinct (map fst f)"
  shows "map fst (sort_key fst f) = sort (map fst f)"
proof (rule sorted_distinct_set_unique)
  show "sorted (map fst (sort_key fst f))" by simp
  show "distinct (map fst (sort_key fst f))"
    using assms by (metis distinct_map distinct_sort set_sort inj_on_cong)
  show "sorted (sort (map fst f))" by simp
  show "distinct (sort (map fst f))" using assms by simp
  show "set (map fst (sort_key fst f)) = set (sort (map fst f))" by simp
qed

lemma entries_of_keys:
  assumes "distinct (map fst f)" "set xs \<subseteq> set f"
  shows "map (\<lambda>k. (k, the (map_of f k))) (map fst xs) = xs"
proof -
  have "\<And>p. p \<in> set xs \<Longrightarrow> (fst p, the (map_of f (fst p))) = p"
  proof -
    fix p assume "p \<in> set xs"
    then have "(fst p, snd p) \<in> set f" using assms(2) by auto
    then have "map_of f (fst p) = Some (snd p)" using assms(1) by (rule map_of_is_SomeI[rotated])
    then show "(fst p, the (map_of f (fst p))) = p" by simp
  qed
  then show ?thesis by (simp add: comp_def map_idI)
qed

lemma sortAndBuildQuery_plain_keys:
  assumes wf: "wf_object f" and plain: "\<forall>k \<in> set (map fst f). \<not> is_array_index k"
    and np: "''__proto__'' \<notin> set (map fst f)"
  shows "sortAndBuildQuery f = serialize_spec f"
proof -
  let ?ks = "sort (map fst f)"
  have d: "distinct (map fst f)" using wf by (simp add: wf_object_def)
  have k1: "Object_keys f = map fst f" using plain by (rule Object_keys_plain)
  have sf: "sortFields f = map (\<lambda>k. (k, the (obj_get f k))) ?ks"
    using sortFields_eq[OF wf np] k1 by simp
  have "\<forall>k \<in> set (map fst (sortFields f)). \<not> is_array_index k"
    using plain by (simp add: sf comp_def)
  then have k2: "Object_keys (sortFields f) = ?ks"
    using Object_keys_plain[of "sortFields f"] by (simp add: sf comp_def)
  have e: "sort_key fst f = map (\<lambda>k. (k, the (obj_get f k))) ?ks"
    using entries_of_keys[OF d, of "sort_key fst f"] sorted_keys_unique[OF d]
    by (simp add: obj_get_def)
  have p: "\<And>k. k \<in> set ?ks \<Longrightarrow>
      pair_string (sortFields f) k = qsEscape k @ ''='' @ qsEscape (the (obj_get f k))"
  proof -
    fix k assume "k \<in> set ?ks"
    then have kin: "k \<in> set (map fst f)" by simp
    then have "map_of f k \<noteq> None" by (simp add: map_of_eq_None_iff)
    then obtain v where v: "obj_get f k = Some v" by (auto simp: obj_get_def)
    then show "pair_string (sortFields f) k = qsEscape k @ ''='' @ qsEscape (the (obj_get f k))"
      using sortFields_get[OF wf np kin] by (simp add: pair_string_def)
  qed
  have "sortAndBuildQuery f = join_amp (map (pair_string (sortFields f)) ?ks)"
    by (simp add: sortAndBuildQuery_def stringify_def k2)
  also have "\<dots> = join_amp (map (\<lambda>k. qsEscape k @ ''='' @ qsEscape (the (obj_get f k))) ?ks)"
  proof -
    have "map (pair_string (sortFields f)) ?ks
        = map (\<lambda>k. qsEscape k @ ''='' @ qsEscape (the (obj_get f k))) ?ks"
      by (rule map_cong[OF refl]) (rule p)
    then show ?thesis by (rule arg_cong)
  qed
  also have "\<dots> = serialize_spec f"
    by (simp add: serialize_spec_def e comp_def)
  finally show ?thesis .
qed

subsection \<open>Claim C2: the string that is signed\<close>

text \<open>
  C2 says that for every field map the signature is the digest of the entries sorted by
  key in bytewise ascending order, serialised as \<^verbatim>\<open>key1=value1&key2=value2\<close> with
  percent-encoding, followed by the secret. \<^verbatim>\<open>sortFields\<close> sorts the keys and copies
  them into a fresh object, but an object lists its array-index keys first and in numeric
  order, whatever the order of their creation. For the fields \<^verbatim>\<open>{"10": "a", "9": "b"}\<close>
  and the secret \<^verbatim>\<open>k\<close> the program digests \<^verbatim>\<open>9=b&10=ak\<close>, where the bytewise order
  of the keys gives \<^verbatim>\<open>10=a&9=bk\<close>.
\<close>

theorem sortFields_array_index_keys:
  "sortAndBuildQuery [(''10'', ''a''), (''9'', ''b'')] = ''9=b&10=a''
   \<and> serialize_spec [(''10'', ''a''), (''9'', ''b'')] = ''10=a&9=b''
   \<and> generateSignature digest [(''10'', ''a''), (''9'', ''b'')] ''k'' = digest ''9=b&10=ak''
   \<and> sign_spec digest [(''10'', ''a''), (''9'', ''b'')] ''k'' = digest ''10=a&9=bk''"
proof -
  let ?f = "[(''10'', ''a''), (''9'', ''b'')]"
  have keys: "Object_keys ?f = [''9'', ''10'']"
    by (simp add: Object_keys_def is_array_index_def is_digit_def nat_of_digits_def digit_val_def)
  have sorted: "sortFields ?f = ?f"
    by (simp add: sortFields_def keys obj_get_def obj_set_def)
  have esc: "qsEscape ''10'' = ''10''" "qsEscape ''9'' = ''9''" "qsEscape ''a'' = ''a''"
    "qsEscape ''b'' = ''b''"
    by (simp_all add: qsEscape_def escape_char_def noEscape_def)
  have 1: "stringify ?f = ''9=b&10=a''"
    by (simp add: stringify_def keys pair_string_def obj_get_def esc)
  have 2: "serialize_spec ?f = ''10=a&9=b''"
    by (simp add: serialize_spec_def esc)
  show ?thesis
    using 1 2 sorted
    by (simp add: generateSignature_def sign_spec_def sortAndBuildQuery_def)
qed

subsection \<open>Verification of a signature\<close>

text \<open>
  For a field map that has no property named \<^verbatim>\<open>__proto__\<close>, verifying the signature
  just generated over the same fields with the same secret returns true; after a field
  value has been changed, or with another secret, the string that is digested differs
  from the one that was signed, so verification returns false as soon as the digest does
  not collide on these two strings (\<open>no_collision\<close>), which is what a SHA-512 digest is
  relied on for.
\<close>

lemma verify_round_trip:
  assumes wf: "wf_object fs" and np: "''__proto__'' \<notin> set (map fst fs)"
  shows "verifySignature digest fs (generateSignature digest fs secret) secret
     \<and> (obj_get fs k = Some v \<and> v' \<noteq> v
          \<and> no_collision digest (signatureString (obj_set fs k v') secret)
                                 (signatureString fs secret)
        \<longrightarrow> \<not> verifySignature digest (obj_set fs k v')
                  (generateSignature digest fs secret) secret)
     \<and> (secret' \<noteq> secret
          \<and> no_collision digest (signatureString fs secret') (signatureString fs secret)
        \<longrightarrow> \<not> verifySignature digest fs (generateSignature digest fs secret) secret')"
proof (intro conjI impI)
  show "verifySignature digest fs (generateSignature digest fs secret) secret"
    by (simp add: verifySignature_def)
next
  assume a: "obj_get fs k = Some v \<and> v' \<noteq> v
     \<and> no_collision digest (signatureString (obj_set fs k v') secret)
                            (signatureString fs secret)"
  then have "sortAndBuildQuery (obj_set fs k v') \<noteq> sortAndBuildQuery fs"
    using query_differs[OF wf np] by blast
  then have "signatureString (obj_set fs k v') secret \<noteq> signatureString fs secret"
    by (simp add: signatureString_def sortAndBuildQuery_def)
  with a show "\<not> verifySignature digest (obj_set fs k v')
                  (generateSignature digest fs secret) secret"
    by (auto simp: verifySignature_def generateSignature_eq no_collision_def)
next
  assume a: "secret' \<noteq> secret
     \<and> no_collision digest (signatureString fs secret') (signatureString fs secret)"
  then have "signatureString fs secret' \<noteq> signatureString fs secret"
    by (simp add: signatureString_def)
  with a show "\<not> verifySignature digest fs (generateSignature digest fs secret) secret'"
    by (auto simp: verifySignature_def generateSignature_eq no_collision_def)
qed

lemma verify_round_trip_example:
  "verifySignature (\<lambda>s. s) [(''amount'', ''100.00''), (''currency'', ''HKD'')]
        (generateSignature (\<lambda>s. s) [(''amount'', ''100.00''), (''currency'', ''HKD'')] ''secret'') ''secret''
   \<and> \<not> verifySignature (\<lambda>s. s)
        (obj_set [(''amount'', ''100.00''), (''currency'', ''HKD'')] ''amount'' ''900.00'')
        (generateSignature (\<lambda>s. s) [(''amount'', ''100.00''), (''currency'', ''HKD'')] ''secret'') ''secret''
   \<and> \<not> verifySignature (\<lambda>s. s) [(''amount'', ''100.00''), (''currency'', ''HKD'')]
        (generateSignature (\<lambda>s. s) [(''amount'', ''100.00''), (''currency'', ''HKD'')] ''secret'') ''other''"
proof -
  let ?f = "[(''amount'', ''100.00''), (''currency'', ''HKD'')]"
  have wf: "wf_object ?f" by (simp add: wf_object_def)
  have np: "''__proto__'' \<notin> set (map fst ?f)" by simp
  have g: "obj_get ?f ''amount'' = Some ''100.00''" by (simp add: obj_get_def)
  have n: "\<And>x y. no_collision (\<lambda>s. s) x y" by (simp add: no_collision_def)
  have ne: "''900.00'' \<noteq> ''100.00''" "''other'' \<noteq> ''secret''" by simp_all
  show ?thesis
    using verify_round_trip[OF wf np, of "\<lambda>s. s" "''secret''" "''amount''" "''100.00''" "''900.00''" "''other''"]
      g n ne by blast
qed

subsection \<open>Claim C3: verification of a signature\<close>

text \<open>
  C3: for every field map and secret, verifying the signature just generated over the
  same fields with the same secret returns true; after a field value has been changed,
  or with another secret, verification returns false. The program does not do this for
  a field map with a property named \<^verbatim>\<open>__proto__\<close>: \<^verbatim>\<open>sortFields\<close> copies the
  properties into a fresh object by assignment, and the assignment to \<^verbatim>\<open>__proto__\<close>
  creates no property, so the field is left out of the string that is signed. For the
  fields \<^verbatim>\<open>{"__proto__": "x", "a": "1"}\<close> and the secret \<^verbatim>\<open>k\<close> the program digests
  \<^verbatim>\<open>a=1k\<close>, where the signing algorithm gives \<^verbatim>\<open>__proto__=x&a=1k\<close>; after the value
  of \<^verbatim>\<open>__proto__\<close> has been changed to \<^verbatim>\<open>y\<close> the program digests the same string
  and verification of the first signature returns true, whatever the digest.
\<close>

theorem verify_ignores_proto_field:
  "sortFields [(''__proto__'', ''x''), (''a'', ''1'')] = [(''a'', ''1'')]
   \<and> signatureString [(''__proto__'', ''x''), (''a'', ''1'')] ''k'' = ''a=1k''
   \<and> serialize_spec [(''__proto__'', ''x''), (''a'', ''1'')] @ ''k'' = ''__proto__=x&a=1k''
   \<and> wf_object [(''__proto__'', ''x''), (''a'', ''1'')]
   \<and> obj_get [(''__proto__'', ''x''), (''a'', ''1'')] ''__proto__'' = Some ''x''
   \<and> ''y'' \<noteq> ''x''
   \<and> obj_set [(''__proto__'', ''x''), (''a'', ''1'')] ''__proto__'' ''y''
       = [(''__proto__'', ''y''), (''a'', ''1'')]
   \<and> signatureString (obj_set [(''__proto__'', ''x''), (''a'', ''1'')] ''__proto__'' ''y'') ''k''
       = ''a=1k''
   \<and> verifySignature digest (obj_set [(''__proto__'', ''x''), (''a'', ''1'')] ''__proto__'' ''y'')
       (generateSignature digest [(''__proto__'', ''x''), (''a'', ''1'')] ''k'') ''k''"
proof -
  let ?f = "[(''__proto__'', ''x''), (''a'', ''1'')]"
  let ?g = "[(''__proto__'', ''y''), (''a'', ''1'')]"
  have nd: "\<not> is_array_index ''__proto__''" "\<not> is_array_index ''a''"
    by (simp_all add: is_array_index_def is_digit_def)
  have keys: "Object_keys ?f = [''__proto__'', ''a'']" "Object_keys ?g = [''__proto__'', ''a'']"
    "Object_keys [(''a'', ''1'')] = [''a'']"
    by (simp_all add: Object_keys_def nd)
  have ord: "sort [''__proto__'', ''a''] = [''__proto__'', ''a'']"
    by simp
  have s1: "sortFields ?f = [(''a'', ''1'')]"
    by (simp add: sortFields_def keys ord obj_get_def obj_set_def)
  have s2: "sortFields ?g = [(''a'', ''1'')]"
    by (simp add: sortFields_def keys ord obj_get_def obj_set_def)
  have u: "obj_set ?f ''__proto__'' ''y'' = ?g" by (simp add: obj_set_def)
  have esc: "qsEscape ''a'' = ''a''" "qsEscape ''1'' = ''1''" "qsEscape ''x'' = ''x''"
    "qsEscape ''__proto__'' = ''__proto__''"
    by (simp_all add: qsEscape_def escape_char_def noEscape_def)
  have q: "stringify [(''a'', ''1'')] = ''a=1''"
    by (simp add: stringify_def keys pair_string_def obj_get_def esc)
  have sp: "sort_key fst ?f = ?f"
    by simp
  have 3: "serialize_spec ?f = ''__proto__=x&a=1''"
    by (simp add: serialize_spec_def sp esc)
  show ?thesis
    unfolding u
    by (simp add: s1 s2 q 3 signatureString_def verifySignature_def generateSignature_def
          wf_object_def obj_get_def)
qed

section \<open>Properties of the scenario service\<close>

lemma check_rules_first_match:
  "\<forall>r \<in> set pre. \<not> ruleMatches r amt net \<Longrightarrow> ruleMatches rule amt net \<Longrightarrow>
   check_rules (pre @ rule # post) amt net = Some (if outcome rule = SUCCESS then ''1'' else ''2'')"
  by (induction pre) auto

lemma check_rules_no_match:
  "\<forall>r \<in> set rs. \<not> ruleMatches r amt net \<Longrightarrow> check_rules rs amt net = None"
  by (induction rs) auto

subsection \<open>Claim C4: the first matching rule decides\<close>

text \<open>
  C4: for every rule list, amount, network and merchant key, the decision is the outcome
  of the first rule, in the order of the list, whose condition matches, whatever the
  rules after it say; with the rules (amount ends with \<^verbatim>\<open>.99\<close>, FAIL), (amount ends with
  \<^verbatim>\<open>.99\<close>, SUCCESS) the amount \<^verbatim>\<open>99.99\<close> fails. When no rule matches and the default
  outcome is SUCCESS or FAIL, the default is the decision. The status \<open>''1''\<close> is
  SUCCESS and \<open>''2''\<close> is FAIL.
\<close>

theorem first_matching_rule_wins:
  "(rules cfg = pre @ rule # post \<and> (\<forall>r \<in> set pre. \<not> ruleMatches r amt net)
      \<and> ruleMatches rule amt net
    \<longrightarrow> getOutcomeForTransaction cfg rnd amt net token
          = (if outcome rule = SUCCESS then ''1'' else ''2''))
   \<and> ((\<forall>r \<in> set (rules cfg). \<not> ruleMatches r amt net) \<and> defaultOutcome cfg = Fixed out
    \<longrightarrow> getOutcomeForTransaction cfg rnd amt net token
          = (if out = SUCCESS then ''1'' else ''2''))
   \<and> getOutcomeForTransaction
        (cfg\<lparr>rules := [\<lparr>condition = Amount_ends_with, rule_value = ''.99'', outcome = FAIL\<rparr>,
                        \<lparr>condition = Amount_ends_with, rule_value = ''.99'', outcome = SUCCESS\<rparr>]\<rparr>)
        rnd ''99.99'' net token = ''2''"
proof (intro conjI impI)
  assume "rules cfg = pre @ rule # post \<and> (\<forall>r \<in> set pre. \<not> ruleMatches r amt net)
      \<and> ruleMatches rule amt net"
  then show "getOutcomeForTransaction cfg rnd amt net token
          = (if outcome rule = SUCCESS then ''1'' else ''2'')"
    using check_rules_first_match[of pre amt net rule post]
    by (simp add: getOutcomeForTransaction_def)
next
  assume "(\<forall>r \<in> set (rules cfg). \<not> ruleMatches r amt net) \<and> defaultOutcome cfg = Fixed out"
  then show "getOutcomeForTransaction cfg rnd amt net token
          = (if out = SUCCESS then ''1'' else ''2'')"
    using check_rules_no_match[of "rules cfg" amt net]
    by (simp add: getOutcomeForTransaction_def)
next
  show "getOutcomeForTransaction
        (cfg\<lparr>rules := [\<lparr>condition = Amount_ends_with, rule_value = ''.99'', outcome = FAIL\<rparr>,
                        \<lparr>condition = Amount_ends_with, rule_value = ''.99'', outcome = SUCCESS\<rparr>]\<rparr>)
        rnd ''99.99'' net token = ''2''"
    by (simp add: getOutcomeForTransaction_def endsWith_def)
qed

theorem first_matching_rule_wins_witness:
  "\<not> ruleMatches \<lparr>condition = Network, rule_value = ''CUP'', outcome = SUCCESS\<rparr>
        ''50.00'' ''Alipay''
   \<and> ruleMatches \<lparr>condition = Amount_equals, rule_value = ''50.00'', outcome = FAIL\<rparr>
        ''50.00'' ''Alipay''
   \<and> ruleMatches \<lparr>condition = Amount_ends_with, rule_value = ''.00'', outcome = SUCCESS\<rparr>
        ''50.00'' ''Alipay''
   \<and> getOutcomeForTransaction
        \<lparr>defaultOutcome = Fixed SUCCESS, callbackDelay = 3000, processingDelay = 1000,
         rules = example_rules\<rparr> (1/4) ''50.00'' ''Alipay'' ''token'' = ''2''
   \<and> list_all (\<lambda>r. \<not> ruleMatches r ''12.34'' ''Alipay'') example_rules
   \<and> getOutcomeForTransaction
        \<lparr>defaultOutcome = Fixed FAIL, callbackDelay = 3000, processingDelay = 1000,
         rules = example_rules\<rparr> (3/4) ''12.34'' ''Alipay'' ''token'' = ''2''
   \<and> getOutcomeForTransaction
        \<lparr>defaultOutcome = Fixed SUCCESS, callbackDelay = 3000, processingDelay = 1000,
         rules = example_rules\<rparr> (1/4) ''12.34'' ''Alipay'' ''token'' = ''1''"
proof -
  let ?r1 = "\<lparr>condition = Network, rule_value = ''CUP'', outcome = SUCCESS\<rparr>"
  let ?r2 = "\<lparr>condition = Amount_equals, rule_value = ''50.00'', outcome = FAIL\<rparr>"
  let ?r3 = "\<lparr>condition = Amount_ends_with, rule_value = ''.00'', outcome = SUCCESS\<rparr>"
  let ?cfg = "\<lambda>d. \<lparr>defaultOutcome = d, callbackDelay = 3000, processingDelay = 1000,
         rules = example_rules\<rparr>"
  have a: "rules (?cfg (Fixed SUCCESS)) = [?r1] @ ?r2 # [?r3]" by (simp add: example_rules_def)
  have b: "\<forall>r \<in> set [?r1]. \<not> ruleMatches r ''50.00'' ''Alipay''" by simp
  have c: "ruleMatches ?r2 ''50.00'' ''Alipay''" by simp
  have c': "ruleMatches ?r3 ''50.00'' ''Alipay''" by (simp add: endsWith_def)
  have d: "\<forall>r \<in> set (rules (?cfg (Fixed FAIL))). \<not> ruleMatches r ''12.34'' ''Alipay''"
    "\<forall>r \<in> set (rules (?cfg (Fixed SUCCESS))). \<not> ruleMatches r ''12.34'' ''Alipay''"
    by (simp_all add: example_rules_def endsWith_def)
  have e: "defaultOutcome (?cfg (Fixed FAIL)) = Fixed FAIL"
    "defaultOutcome (?cfg (Fixed SUCCESS)) = Fixed SUCCESS" by simp_all
  note t1 = first_matching_rule_wins[of "?cfg (Fixed SUCCESS)" "[?r1]" ?r2 "[?r3]" "''50.00''" "''Alipay''"
      "1/4" "''token''" SUCCESS]
  note t2 = first_matching_rule_wins[of "?cfg (Fixed FAIL)" "[]" ?r1 "[]" "''12.34''" "''Alipay''"
      "3/4" "''token''" FAIL]
  note t3 = first_matching_rule_wins[of "?cfg (Fixed SUCCESS)" "[]" ?r1 "[]" "''12.34''" "''Alipay''"
      "1/4" "''token''" SUCCESS]
  have 1: "getOutcomeForTransaction (?cfg (Fixed SUCCESS)) (1/4) ''50.00'' ''Alipay'' ''token'' = ''2''"
    using t1 a b c by simp
  have 2: "getOutcomeForTransaction (?cfg (Fixed FAIL)) (3/4) ''12.34'' ''Alipay'' ''token'' = ''2''"
    using t2 d(1) e(1) by simp
  have 3: "getOutcomeForTransaction (?cfg (Fixed SUCCESS)) (1/4) ''12.34'' ''Alipay'' ''token'' = ''1''"
    using t3 d(2) e(2) by simp
  show ?thesis using 1 2 3 b c c' d by (simp add: list_all_iff)
qed

subsection \<open>Claim C10: a partial reconfiguration\<close>

text \<open>
  C10: \<^verbatim>\<open>setScenario\<close> replaces exactly the fields that the request carries and leaves
  every field it omits (default outcome, processing delay, callback delay, rules) as it
  was; an update with the default outcome only keeps the rules and both delays.
\<close>

theorem setScenario_frame:
  "(upd_defaultOutcome sc = None \<longrightarrow> defaultOutcome (setScenario cfg sc) = defaultOutcome cfg)
   \<and> (upd_defaultOutcome sc = Some d \<longrightarrow> defaultOutcome (setScenario cfg sc) = d)
   \<and> (upd_processingDelay sc = None \<longrightarrow> processingDelay (setScenario cfg sc) = processingDelay cfg)
   \<and> (upd_processingDelay sc = Some p \<longrightarrow> processingDelay (setScenario cfg sc) = p)
   \<and> (upd_callbackDelay sc = None \<longrightarrow> callbackDelay (setScenario cfg sc) = callbackDelay cfg)
   \<and> (upd_callbackDelay sc = Some c \<longrightarrow> callbackDelay (setScenario cfg sc) = c)
   \<and> (upd_rules sc = None \<longrightarrow> rules (setScenario cfg sc) = rules cfg)
   \<and> (upd_rules sc = Some rs \<longrightarrow> rules (setScenario cfg sc) = rs)"
  by (simp add: setScenario_def)

theorem setScenario_frame_witness:
  "upd_defaultOutcome \<lparr>upd_defaultOutcome = Some (Fixed FAIL), upd_callbackDelay = None,
       upd_processingDelay = None, upd_rules = None\<rparr> = Some (Fixed FAIL)
   \<and> setScenario
        \<lparr>defaultOutcome = Fixed SUCCESS, callbackDelay = 3000, processingDelay = 1000,
         rules = [\<lparr>condition = Network, rule_value = ''Alipay'', outcome = SUCCESS\<rparr>]\<rparr>
        \<lparr>upd_defaultOutcome = Some (Fixed FAIL), upd_callbackDelay = None,
         upd_processingDelay = None, upd_rules = None\<rparr>
      = \<lparr>defaultOutcome = Fixed FAIL, callbackDelay = 3000, processingDelay = 1000,
         rules = [\<lparr>condition = Network, rule_value = ''Alipay'', outcome = SUCCESS\<rparr>]\<rparr>
   \<and> upd_callbackDelay \<lparr>upd_defaultOutcome = None, upd_callbackDelay = Some 5000,
       upd_processingDelay = Some 2000, upd_rules = Some []\<rparr> = Some 5000
   \<and> setScenario
        \<lparr>defaultOutcome = RANDOM, callbackDelay = 3000, processingDelay = 1000,
         rules = [\<lparr>condition = Network, rule_value = ''Alipay'', outcome = SUCCESS\<rparr>]\<rparr>
        \<lparr>upd_defaultOutcome = None, upd_callbackDelay = Some 5000,
         upd_processingDelay = Some 2000, upd_rules = Some []\<rparr>
      = \<lparr>defaultOutcome = RANDOM, callbackDelay = 5000, processingDelay = 2000, rules = []\<rparr>"
proof -
  let ?cfg = "\<lparr>defaultOutcome = Fixed SUCCESS, callbackDelay = 3000, processingDelay = 1000,
         rules = [\<lparr>condition = Network, rule_value = ''Alipay'', outcome = SUCCESS\<rparr>]\<rparr>"
  let ?sc = "\<lparr>upd_defaultOutcome = Some (Fixed FAIL), upd_callbackDelay = None,
         upd_processingDelay = None, upd_rules = None\<rparr>"
  let ?cfg2 = "\<lparr>defaultOutcome = RANDOM, callbackDelay = 3000, processingDelay = 1000,
         rules = [\<lparr>condition = Network, rule_value = ''Alipay'', outcome = SUCCESS\<rparr>]\<rparr>"
  let ?sc2 = "\<lparr>upd_defaultOutcome = None, upd_callbackDelay = Some 5000,
         upd_processingDelay = Some 2000, upd_rules = Some []\<rparr>"
  have "setScenario ?cfg ?sc = \<lparr>defaultOutcome = Fixed FAIL, callbackDelay = 3000, processingDelay = 1000,
         rules = [\<lparr>condition = Network, rule_value = ''Alipay'', outcome = SUCCESS\<rparr>]\<rparr>"
    using setScenario_frame[of ?sc ?cfg "Fixed FAIL" 0 0 "[]"]
    by (intro ScenarioConfig.equality) simp_all
  moreover have "setScenario ?cfg2 ?sc2
      = \<lparr>defaultOutcome = RANDOM, callbackDelay = 5000, processingDelay = 2000, rules = []\<rparr>"
    using setScenario_frame[of ?sc2 ?cfg2 RANDOM 2000 5000 "[]"]
    by (intro ScenarioConfig.equality) simp_all
  ultimately show ?thesis by simp
qed

section \<open>Properties of the callback service\<close>

lemma list_ex_map_id:
  "(\<And>t. id (f t) = id t) \<Longrightarrow> list_ex (\<lambda>t. id t = tid) (map f ts) = list_ex (\<lambda>t. id t = tid) ts"
  by (induction ts) auto

lemma callback_attempt_fail:
  assumes ex: "list_ex (\<lambda>t. id t = id tx) (transactions w)"
    and m: "callback_merchant w tx incl = Some m"
    and nr: "respond n \<noteq> Response 200"
  shows "callback_attempt digest respond tx incl n w =
     Inr (let w2 = w\<lparr>trace := trace w @ [Post (notifyUrl tx)
                           (stringify (buildCallbackPayload digest tx (signatureSecret m)))],
                    transactions := map (\<lambda>t. if id t = id tx
                         then t\<lparr>callbackAttempts := n, lastCallbackAt := Some (clock w)\<rparr> else t)
                       (transactions w)\<rparr>
          in if n < maxAttempts then sleep w2 (2 ^ n * 1000) else w2)"
  using ex m nr by (simp add: callback_attempt_def update_transaction_def Let_def cong: if_cong)

lemma callback_attempt_ok:
  assumes ex: "list_ex (\<lambda>t. id t = id tx) (transactions w)"
    and m: "callback_merchant w tx incl = Some m"
    and r: "respond n = Response 200"
  shows "callback_attempt digest respond tx incl n w =
     Inl (Inr True,
          w\<lparr>trace := trace w @ [Post (notifyUrl tx)
                           (stringify (buildCallbackPayload digest tx (signatureSecret m)))],
            transactions := map (\<lambda>t. if id t = id tx
                 then t\<lparr>callbackSent := True, callbackAttempts := n,
                        lastCallbackAt := Some (clock w)\<rparr> else t)
               (transactions w)\<rparr>)"
  using ex m r by (simp add: callback_attempt_def update_transaction_def Let_def cong: if_cong)

lemma callback_attempt_no_merchant:
  "callback_merchant w tx incl = None \<Longrightarrow>
   callback_attempt digest respond tx incl n w = Inl (Inr False, w)"
  by (simp add: callback_attempt_def)


lemma callback_merchant_cong:
  "merchants w' = merchants w \<Longrightarrow> callback_merchant w' tx incl = callback_merchant w tx incl"
  by (cases incl) (simp_all add: callback_merchant_def)

lemma loop_step:
  "a < maxAttempts \<Longrightarrow> b = a + 1 \<Longrightarrow> callback_attempt digest respond tx incl b w = Inr w' \<Longrightarrow>
   sendCallback_loop digest respond tx incl a w = sendCallback_loop digest respond tx incl b w'"
  by (subst sendCallback_loop.simps) simp

lemma loop_stop:
  "a < maxAttempts \<Longrightarrow> b = a + 1 \<Longrightarrow> callback_attempt digest respond tx incl b w = Inl res \<Longrightarrow>
   sendCallback_loop digest respond tx incl a w = res"
  by (subst sendCallback_loop.simps) simp

lemma loop_end:
  "\<not> a < maxAttempts \<Longrightarrow> sendCallback_loop digest respond tx incl a w = (Inr False, w)"
  by (subst sendCallback_loop.simps) simp

lemma sendCallback_all_fail:
  assumes ex: "list_ex (\<lambda>t. id t = id tx) (transactions w)"
    and m: "callback_merchant w tx incl = Some m"
    and nr: "\<forall>n. respond n \<noteq> Response 200"
  shows "sendCallback digest respond tx incl w =
     (Inr False,
      w\<lparr>clock := clock w + 6000,
        trace := trace w @
          [Post (notifyUrl tx) (stringify (buildCallbackPayload digest tx (signatureSecret m))),
           Sleep 2000,
           Post (notifyUrl tx) (stringify (buildCallbackPayload digest tx (signatureSecret m))),
           Sleep 4000,
           Post (notifyUrl tx) (stringify (buildCallbackPayload digest tx (signatureSecret m)))],
        transactions := map (\<lambda>t. if id t = id tx
             then t\<lparr>callbackAttempts := 3, lastCallbackAt := Some (clock w + 6000)\<rparr> else t)
           (transactions w)\<rparr>)"
proof -
  define P where "P = Post (notifyUrl tx) (stringify (buildCallbackPayload digest tx (signatureSecret m)))"
  define w1 where "w1 = sleep (w\<lparr>trace := trace w @ [P],
       transactions := map (\<lambda>t. if id t = id tx
           then t\<lparr>callbackAttempts := 1, lastCallbackAt := Some (clock w)\<rparr> else t)
         (transactions w)\<rparr>) 2000"
  define w2 where "w2 = sleep (w1\<lparr>trace := trace w1 @ [P],
       transactions := map (\<lambda>t. if id t = id tx
           then t\<lparr>callbackAttempts := 2, lastCallbackAt := Some (clock w1)\<rparr> else t)
         (transactions w1)\<rparr>) 4000"
  define w3 where "w3 = w2\<lparr>trace := trace w2 @ [P],
       transactions := map (\<lambda>t. if id t = id tx
           then t\<lparr>callbackAttempts := 3, lastCallbackAt := Some (clock w2)\<rparr> else t)
         (transactions w2)\<rparr>"
  have a1: "callback_attempt digest respond tx incl 1 w = Inr w1"
    using callback_attempt_fail[OF ex m, of respond 1 digest] nr
    by (simp add: w1_def P_def maxAttempts_def)
  have ex1: "list_ex (\<lambda>t. id t = id tx) (transactions w1)"
    using ex by (simp add: w1_def sleep_def list_ex_map_id)
  have m1: "callback_merchant w1 tx incl = Some m"
    using m callback_merchant_cong[of w1 w] by (simp add: w1_def sleep_def)
  have a2: "callback_attempt digest respond tx incl 2 w1 = Inr w2"
    using callback_attempt_fail[OF ex1 m1, of respond 2 digest] nr
    by (simp add: w2_def P_def maxAttempts_def)
  have ex2: "list_ex (\<lambda>t. id t = id tx) (transactions w2)"
    using ex1 by (simp add: w2_def sleep_def list_ex_map_id)
  have m2: "callback_merchant w2 tx incl = Some m"
    using m1 callback_merchant_cong[of w2 w1] by (simp add: w2_def sleep_def)
  have a3: "callback_attempt digest respond tx incl 3 w2 = Inr w3"
    using callback_attempt_fail[OF ex2 m2, of respond 3 digest] nr
    by (simp add: w3_def P_def maxAttempts_def)
  have "sendCallback_loop digest respond tx incl 0 w = sendCallback_loop digest respond tx incl 1 w1"
    using a1 by (intro loop_step) (simp_all add: maxAttempts_def)
  also have "\<dots> = sendCallback_loop digest respond tx incl 2 w2"
    using a2 by (intro loop_step) (simp_all add: maxAttempts_def)
  also have "\<dots> = sendCallback_loop digest respond tx incl 3 w3"
    using a3 by (intro loop_step) (simp_all add: maxAttempts_def)
  also have "\<dots> = (Inr False, w3)"
    using loop_end[of 3 digest respond tx incl w3] by (simp add: maxAttempts_def)
  finally have l: "sendCallback digest respond tx incl w = (Inr False, w3)"
    by (simp add: sendCallback_def)
  have "w3 = w\<lparr>clock := clock w + 6000,
        trace := trace w @ [P, Sleep 2000, P, Sleep 4000, P],
        transactions := map (\<lambda>t. if id t = id tx
             then t\<lparr>callbackAttempts := 3, lastCallbackAt := Some (clock w + 6000)\<rparr> else t)
           (transactions w)\<rparr>"
    by (simp add: w3_def w2_def w1_def sleep_def comp_def cong: if_cong)
  with l show ?thesis by (simp add: P_def)
qed


lemma sendCallback_success_first:
  assumes ex: "list_ex (\<lambda>t. id t = id tx) (transactions w)"
    and m: "callback_merchant w tx incl = Some m"
    and ok: "respond 1 = Response 200"
  shows "sendCallback digest respond tx incl w =
     (Inr True,
      w\<lparr>trace := trace w @
          [Post (notifyUrl tx) (stringify (buildCallbackPayload digest tx (signatureSecret m)))],
        transactions := map (\<lambda>t. if id t = id tx
             then t\<lparr>callbackSent := True, callbackAttempts := 1,
                    lastCallbackAt := Some (clock w)\<rparr> else t)
           (transactions w)\<rparr>)"
proof -
  note a = callback_attempt_ok[where respond=respond and n=1, OF ex m ok]
  show ?thesis
    unfolding sendCallback_def
    using a by (intro loop_stop[where b = 1]) (simp_all add: maxAttempts_def)
qed

lemma sendCallback_success_second:
  assumes ex: "list_ex (\<lambda>t. id t = id tx) (transactions w)"
    and m: "callback_merchant w tx incl = Some m"
    and nr: "respond 1 \<noteq> Response 200"
    and ok: "respond 2 = Response 200"
  shows "sendCallback digest respond tx incl w =
     (Inr True,
      w\<lparr>clock := clock w + 2000,
        trace := trace w @
          [Post (notifyUrl tx) (stringify (buildCallbackPayload digest tx (signatureSecret m))),
           Sleep 2000,
           Post (notifyUrl tx) (stringify (buildCallbackPayload digest tx (signatureSecret m)))],
        transactions := map (\<lambda>t. if id t = id tx
             then t\<lparr>callbackSent := True, callbackAttempts := 2,
                    lastCallbackAt := Some (clock w + 2000)\<rparr> else t)
           (transactions w)\<rparr>)"
proof -
  define P where "P = Post (notifyUrl tx) (stringify (buildCallbackPayload digest tx (signatureSecret m)))"
  define w1 where "w1 = sleep (w\<lparr>trace := trace w @ [P],
       transactions := map (\<lambda>t. if id t = id tx
           then t\<lparr>callbackAttempts := 1, lastCallbackAt := Some (clock w)\<rparr> else t)
         (transactions w)\<rparr>) 2000"
  define w2 where "w2 = w1\<lparr>trace := trace w1 @ [P],
       transactions := map (\<lambda>t. if id t = id tx
           then t\<lparr>callbackSent := True, callbackAttempts := 2,
                  lastCallbackAt := Some (clock w1)\<rparr> else t)
         (transactions w1)\<rparr>"
  have a1: "callback_attempt digest respond tx incl 1 w = Inr w1"
    using callback_attempt_fail[where respond=respond and n=1, OF ex m nr]
    by (simp add: w1_def P_def maxAttempts_def)
  have ex1: "list_ex (\<lambda>t. id t = id tx) (transactions w1)"
    using ex by (simp add: w1_def sleep_def list_ex_map_id)
  have m1: "callback_merchant w1 tx incl = Some m"
    using m callback_merchant_cong[of w1 w] by (simp add: w1_def sleep_def)
  have a2: "callback_attempt digest respond tx incl 2 w1 = Inl (Inr True, w2)"
    using callback_attempt_ok[where respond=respond and n=2, OF ex1 m1 ok]
    by (simp add: w2_def P_def)
  have "sendCallback_loop digest respond tx incl 0 w = sendCallback_loop digest respond tx incl 1 w1"
    using a1 by (intro loop_step) (simp_all add: maxAttempts_def)
  also have "\<dots> = (Inr True, w2)"
    using a2 by (intro loop_stop[where b = 2]) (simp_all add: maxAttempts_def)
  finally have l: "sendCallback digest respond tx incl w = (Inr True, w2)"
    by (simp add: sendCallback_def)
  have "w2 = w\<lparr>clock := clock w + 2000,
        trace := trace w @ [P, Sleep 2000, P],
        transactions := map (\<lambda>t. if id t = id tx
             then t\<lparr>callbackSent := True, callbackAttempts := 2,
                    lastCallbackAt := Some (clock w + 2000)\<rparr> else t)
           (transactions w)\<rparr>"
    by (simp add: w2_def w1_def sleep_def comp_def cong: if_cong)
  with l show ?thesis by (simp add: P_def)
qed

lemma sendCallback_success_third:
  assumes ex: "list_ex (\<lambda>t. id t = id tx) (transactions w)"
    and m: "callback_merchant w tx incl = Some m"
    and nr: "respond 1 \<noteq> Response 200" "respond 2 \<noteq> Response 200"
    and ok: "respond 3 = Response 200"
  shows "sendCallback digest respond tx incl w =
     (Inr True,
      w\<lparr>clock := clock w + 6000,
        trace := trace w @
          [Post (notifyUrl tx) (stringify (buildCallbackPayload digest tx (signatureSecret m))),
           Sleep 2000,
           Post (notifyUrl tx) (stringify (buildCallbackPayload digest tx (signatureSecret m))),
           Sleep 4000,
           Post (notifyUrl tx) (stringify (buildCallbackPayload digest tx (signatureSecret m)))],
        transactions := map (\<lambda>t. if id t = id tx
             then t\<lparr>callbackSent := True, callbackAttempts := 3,
                    lastCallbackAt := Some (clock w + 6000)\<rparr> else t)
           (transactions w)\<rparr>)"
proof -
  define P where "P = Post (notifyUrl tx) (stringify (buildCallbackPayload digest tx (signatureSecret m)))"
  define w1 where "w1 = sleep (w\<lparr>trace := trace w @ [P],
       transactions := map (\<lambda>t. if id t = id tx
           then t\<lparr>callbackAttempts := 1, lastCallbackAt := Some (clock w)\<rparr> else t)
         (transactions w)\<rparr>) 2000"
  define w2 where "w2 = sleep (w1\<lparr>trace := trace w1 @ [P],
       transactions := map (\<lambda>t. if id t = id tx
           then t\<lparr>callbackAttempts := 2, lastCallbackAt := Some (clock w1)\<rparr> else t)
         (transactions w1)\<rparr>) 4000"
  define w3 where "w3 = w2\<lparr>trace := trace w2 @ [P],
       transactions := map (\<lambda>t. if id t = id tx
           then t\<lparr>callbackSent := True, callbackAttempts := 3,
                  lastCallbackAt := Some (clock w2)\<rparr> else t)
         (transactions w2)\<rparr>"
  have a1: "callback_attempt digest respond tx incl 1 w = Inr w1"
    using callback_attempt_fail[where respond=respond and n=1, OF ex m nr(1)]
    by (simp add: w1_def P_def maxAttempts_def)
  have ex1: "list_ex (\<lambda>t. id t = id tx) (transactions w1)"
    using ex by (simp add: w1_def sleep_def list_ex_map_id)
  have m1: "callback_merchant w1 tx incl = Some m"
    using m callback_merchant_cong[of w1 w] by (simp add: w1_def sleep_def)
  have a2: "callback_attempt digest respond tx incl 2 w1 = Inr w2"
    using callback_attempt_fail[where respond=respond and n=2, OF ex1 m1 nr(2)]
    by (simp add: w2_def P_def maxAttempts_def)
  have ex2: "list_ex (\<lambda>t. id t = id tx) (transactions w2)"
    using ex1 by (simp add: w2_def sleep_def list_ex_map_id)
  have m2: "callback_merchant w2 tx incl = Some m"
    using m1 callback_merchant_cong[of w2 w1] by (simp add: w2_def sleep_def)
  have a3: "callback_attempt digest respond tx incl 3 w2 = Inl (Inr True, w3)"
    using callback_attempt_ok[where respond=respond and n=3, OF ex2 m2 ok]
    by (simp add: w3_def P_def)
  have "sendCallback_loop digest respond tx incl 0 w = sendCallback_loop digest respond tx incl 1 w1"
    using a1 by (intro loop_step) (simp_all add: maxAttempts_def)
  also have "\<dots> = sendCallback_loop digest respond tx incl 2 w2"
    using a2 by (intro loop_step) (simp_all add: maxAttempts_def)
  also have "\<dots> = (Inr True, w3)"
    using a3 by (intro loop_stop[where b = 3]) (simp_all add: maxAttempts_def)
  finally have l: "sendCallback digest respond tx incl w = (Inr True, w3)"
    by (simp add: sendCallback_def)
  have "w3 = w\<lparr>clock := clock w + 6000,
        trace := trace w @ [P, Sleep 2000, P, Sleep 4000, P],
        transactions := map (\<lambda>t. if id t = id tx
             then t\<lparr>callbackSent := True, callbackAttempts := 3,
                    lastCallbackAt := Some (clock w + 6000)\<rparr> else t)
           (transactions w)\<rparr>"
    by (simp add: w3_def w2_def w1_def sleep_def comp_def cong: if_cong)
  with l show ?thesis by (simp add: P_def)
qed

lemma sendCallback_first_success:
  assumes ex: "list_ex (\<lambda>t. id t = id tx) (transactions w)"
    and m: "callback_merchant w tx incl = Some m"
    and a: "1 \<le> k \<and> k \<le> maxAttempts \<and> (\<forall>j. 1 \<le> j \<and> j < k \<longrightarrow> respond j \<noteq> Response 200)
         \<and> respond k = Response 200"
  shows "fst (sendCallback digest respond tx incl w) = Inr True
        \<and> (\<forall>t \<in> set (transactions (snd (sendCallback digest respond tx incl w))).
              id t = id tx \<longrightarrow> callbackSent t \<and> callbackAttempts t = k)
        \<and> length (filter is_post (drop (length (trace w))
              (trace (snd (sendCallback digest respond tx incl w))))) = k"
proof -
  from a consider "k = 1" | "k = 2" | "k = 3" by (auto simp: maxAttempts_def) arith
  then show ?thesis
  proof cases
    case 1
    then have "respond 1 = Response 200" using a by simp
    from sendCallback_success_first[where respond=respond, OF ex m this] 1 show ?thesis
      by (auto simp: is_post_def)
  next
    case 2
    then have "respond 1 \<noteq> Response 200" "respond 2 = Response 200" using a by simp_all
    from sendCallback_success_second[where respond=respond, OF ex m this] 2 show ?thesis
      by (auto simp: is_post_def)
  next
    case 3
    then have "respond 1 \<noteq> Response 200" "respond 2 \<noteq> Response 200" "respond 3 = Response 200"
      using a by simp_all
    from sendCallback_success_third[where respond=respond, OF ex m this] 3 show ?thesis
      by (auto simp: is_post_def)
  qed
qed

text \<open>
  The state after a delivery whose \<open>k\<close>-th attempt is the first one answered with 200:
  \<open>k\<close> posts, a pause of \<open>2 ^ j\<close> seconds after the \<open>j\<close>-th of those before, and the
  record of the transaction marked as delivered at the time of the last post.
\<close>

lemma sendCallback_first_success_world:
  assumes ex: "list_ex (\<lambda>t. id t = id tx) (transactions w)"
    and m: "callback_merchant w tx incl = Some m"
    and a: "1 \<le> k \<and> k \<le> maxAttempts \<and> (\<forall>j. 1 \<le> j \<and> j < k \<longrightarrow> respond j \<noteq> Response 200)
         \<and> respond k = Response 200"
  shows "sendCallback digest respond tx incl w =
     (Inr True,
      w\<lparr>clock := clock w + (2 ^ k - 2) * 1000,
        trace := trace w @
          concat (map (\<lambda>j. [Post (notifyUrl tx) (stringify (buildCallbackPayload digest tx (signatureSecret m))),
                            Sleep (2 ^ j * 1000)]) [1..<k])
          @ [Post (notifyUrl tx) (stringify (buildCallbackPayload digest tx (signatureSecret m)))],
        transactions := map (\<lambda>t. if id t = id tx
             then t\<lparr>callbackSent := True, callbackAttempts := k,
                    lastCallbackAt := Some (clock w + (2 ^ k - 2) * 1000)\<rparr> else t)
           (transactions w)\<rparr>)"
proof -
  have u: "[1..<1] = ([]::nat list)" "[1..<2] = [1::nat]" "[1..<3] = [1, 2::nat]"
    by (simp_all add: eval_nat_numeral)
  have p: "(2::nat) ^ 1 - 2 = 0" "((2::nat) ^ 2 - 2) * 1000 = 2000" "((2::nat) ^ 3 - 2) * 1000 = 6000"
    "(2::nat) ^ 1 * 1000 = 2000" "(2::nat) ^ 2 * 1000 = 4000"
    by simp_all
  from a consider "k = 1" | "k = 2" | "k = 3" by (auto simp: maxAttempts_def) arith
  then show ?thesis
  proof cases
    case 1
    then have "respond 1 = Response 200" using a by simp
    from sendCallback_success_first[where respond=respond and digest=digest, OF ex m this]
    show ?thesis unfolding 1 u p by simp
  next
    case 2
    then have "respond 1 \<noteq> Response 200" "respond 2 = Response 200" using a by simp_all
    from sendCallback_success_second[where respond=respond and digest=digest, OF ex m this]
    show ?thesis unfolding 2 u p by simp
  next
    case 3
    then have "respond 1 \<noteq> Response 200" "respond 2 \<noteq> Response 200" "respond 3 = Response 200"
      using a by simp_all
    from sendCallback_success_third[where respond=respond and digest=digest, OF ex m this]
    show ?thesis unfolding 3 u p by simp
  qed
qed

lemma list_ex_updated:
  assumes "list_ex (\<lambda>t. id t = i) ts" and "\<And>t. id (f t) = id t" and "\<And>t. id t = i \<Longrightarrow> Q (f t)"
  shows "list_ex (\<lambda>t. id t = i \<and> Q t) (map (\<lambda>t. if id t = i then f t else t) ts)"
  using assms(1)
proof (induction ts)
  case Nil
  then show ?case by simp
next
  case (Cons t ts)
  then show ?case using assms(2,3) by (cases "id t = i") simp_all
qed

subsection \<open>Claim C5: three attempts at most, two pauses\<close>

text \<open>
  C5: when the target never answers with the status 200 (another status, a timeout, a
  network error), a delivery makes exactly three attempts, pausing \<open>2 ^ attempt\<close>
  seconds after a failure (2 s after the first, 4 s after the second); it then stops,
  sets no timer for a further retry and leaves \<^verbatim>\<open>callbackSent\<close> as it was (false for a
  transaction not yet delivered). An attempt answered with exactly 200 sets
  \<^verbatim>\<open>callbackSent\<close> to true and ends the delivery: when the \<open>k\<close>-th attempt is the
  first one answered with 200, the delivery returns true after \<open>k\<close> posts, and the store
  is the one it was with the record of the transaction marked as delivered, its counter
  \<open>k\<close>. Both halves give the whole state after the delivery. The transaction is one of
  the store and its merchant is found.
\<close>

theorem delivery_bound:
  assumes ex: "list_ex (\<lambda>t. id t = id tx) (transactions w)"
    and m: "callback_merchant w tx incl = Some m"
  shows
    "((\<forall>n. respond n \<noteq> Response 200) \<longrightarrow>
        sendCallback digest respond tx incl w =
          (Inr False,
           w\<lparr>clock := clock w + 6000,
             trace := trace w @
               [Post (notifyUrl tx) (stringify (buildCallbackPayload digest tx (signatureSecret m))),
                Sleep 2000,
                Post (notifyUrl tx) (stringify (buildCallbackPayload digest tx (signatureSecret m))),
                Sleep 4000,
                Post (notifyUrl tx) (stringify (buildCallbackPayload digest tx (signatureSecret m)))],
             transactions := map (\<lambda>t. if id t = id tx
                  then t\<lparr>callbackAttempts := 3, lastCallbackAt := Some (clock w + 6000)\<rparr> else t)
                (transactions w)\<rparr>)
        \<and> fst (sendCallback digest respond tx incl w) = Inr False
        \<and> trace (snd (sendCallback digest respond tx incl w)) = trace w @
            [Post (notifyUrl tx) (stringify (buildCallbackPayload digest tx (signatureSecret m))),
             Sleep 2000,
             Post (notifyUrl tx) (stringify (buildCallbackPayload digest tx (signatureSecret m))),
             Sleep 4000,
             Post (notifyUrl tx) (stringify (buildCallbackPayload digest tx (signatureSecret m)))]
        \<and> map callbackSent (transactions (snd (sendCallback digest respond tx incl w)))
            = map callbackSent (transactions w)
        \<and> (\<forall>t \<in> set (transactions (snd (sendCallback digest respond tx incl w))).
              id t = id tx \<longrightarrow> callbackAttempts t = 3)
        \<and> timers (snd (sendCallback digest respond tx incl w)) = timers w)
     \<and> (1 \<le> k \<and> k \<le> maxAttempts \<and> (\<forall>j. 1 \<le> j \<and> j < k \<longrightarrow> respond j \<noteq> Response 200)
         \<and> respond k = Response 200 \<longrightarrow>
        sendCallback digest respond tx incl w =
          (Inr True,
           w\<lparr>clock := clock w + (2 ^ k - 2) * 1000,
             trace := trace w @
               concat (map (\<lambda>j. [Post (notifyUrl tx) (stringify (buildCallbackPayload digest tx (signatureSecret m))),
                                 Sleep (2 ^ j * 1000)]) [1..<k])
               @ [Post (notifyUrl tx) (stringify (buildCallbackPayload digest tx (signatureSecret m)))],
             transactions := map (\<lambda>t. if id t = id tx
                  then t\<lparr>callbackSent := True, callbackAttempts := k,
                         lastCallbackAt := Some (clock w + (2 ^ k - 2) * 1000)\<rparr> else t)
                (transactions w)\<rparr>)
        \<and> fst (sendCallback digest respond tx incl w) = Inr True
        \<and> list_ex (\<lambda>t. id t = id tx \<and> callbackSent t \<and> callbackAttempts t = k)
             (transactions (snd (sendCallback digest respond tx incl w)))
        \<and> (\<forall>t \<in> set (transactions (snd (sendCallback digest respond tx incl w))).
              id t = id tx \<longrightarrow> callbackSent t \<and> callbackAttempts t = k)
        \<and> length (filter is_post (drop (length (trace w))
              (trace (snd (sendCallback digest respond tx incl w))))) = k
        \<and> timers (snd (sendCallback digest respond tx incl w)) = timers w)"
proof (intro conjI impI)
  assume nr: "\<forall>n. respond n \<noteq> Response 200"
  note r = sendCallback_all_fail[where respond=respond, OF ex m nr]
  show "sendCallback digest respond tx incl w =
          (Inr False,
           w\<lparr>clock := clock w + 6000,
             trace := trace w @
               [Post (notifyUrl tx) (stringify (buildCallbackPayload digest tx (signatureSecret m))),
                Sleep 2000,
                Post (notifyUrl tx) (stringify (buildCallbackPayload digest tx (signatureSecret m))),
                Sleep 4000,
                Post (notifyUrl tx) (stringify (buildCallbackPayload digest tx (signatureSecret m)))],
             transactions := map (\<lambda>t. if id t = id tx
                  then t\<lparr>callbackAttempts := 3, lastCallbackAt := Some (clock w + 6000)\<rparr> else t)
                (transactions w)\<rparr>)"
    by (rule r)
  show "fst (sendCallback digest respond tx incl w) = Inr False" by (simp add: r)
  show "trace (snd (sendCallback digest respond tx incl w)) = trace w @
            [Post (notifyUrl tx) (stringify (buildCallbackPayload digest tx (signatureSecret m))),
             Sleep 2000,
             Post (notifyUrl tx) (stringify (buildCallbackPayload digest tx (signatureSecret m))),
             Sleep 4000,
             Post (notifyUrl tx) (stringify (buildCallbackPayload digest tx (signatureSecret m)))]"
    by (simp add: r)
  show "map callbackSent (transactions (snd (sendCallback digest respond tx incl w)))
            = map callbackSent (transactions w)"
    by (simp add: r comp_def cong: if_cong)
  show "\<forall>t \<in> set (transactions (snd (sendCallback digest respond tx incl w))).
              id t = id tx \<longrightarrow> callbackAttempts t = 3"
    by (auto simp: r)
  show "timers (snd (sendCallback digest respond tx incl w)) = timers w" by (simp add: r)
next
  assume a: "1 \<le> k \<and> k \<le> maxAttempts \<and> (\<forall>j. 1 \<le> j \<and> j < k \<longrightarrow> respond j \<noteq> Response 200)
         \<and> respond k = Response 200"
  note s = sendCallback_first_success[where respond=respond , OF ex m a]
  note e = sendCallback_first_success_world[where respond=respond and digest=digest, OF ex m a]
  show "sendCallback digest respond tx incl w =
          (Inr True,
           w\<lparr>clock := clock w + (2 ^ k - 2) * 1000,
             trace := trace w @
               concat (map (\<lambda>j. [Post (notifyUrl tx) (stringify (buildCallbackPayload digest tx (signatureSecret m))),
                                 Sleep (2 ^ j * 1000)]) [1..<k])
               @ [Post (notifyUrl tx) (stringify (buildCallbackPayload digest tx (signatureSecret m)))],
             transactions := map (\<lambda>t. if id t = id tx
                  then t\<lparr>callbackSent := True, callbackAttempts := k,
                         lastCallbackAt := Some (clock w + (2 ^ k - 2) * 1000)\<rparr> else t)
                (transactions w)\<rparr>)"
    by (rule e)
  from s show "fst (sendCallback digest respond tx incl w) = Inr True" by blast
  have "list_ex (\<lambda>t. id t = id tx \<and> callbackSent t \<and> callbackAttempts t = k)
      (map (\<lambda>t. if id t = id tx
                  then t\<lparr>callbackSent := True, callbackAttempts := k,
                         lastCallbackAt := Some (clock w + (2 ^ k - 2) * 1000)\<rparr> else t)
                (transactions w))"
    using ex by (rule list_ex_updated) simp_all
  then show "list_ex (\<lambda>t. id t = id tx \<and> callbackSent t \<and> callbackAttempts t = k)
             (transactions (snd (sendCallback digest respond tx incl w)))"
    by (simp add: e)
  from s show "\<forall>t \<in> set (transactions (snd (sendCallback digest respond tx incl w))).
              id t = id tx \<longrightarrow> callbackSent t \<and> callbackAttempts t = k" by blast
  from s show "length (filter is_post (drop (length (trace w))
              (trace (snd (sendCallback digest respond tx incl w))))) = k" by blast
  show "timers (snd (sendCallback digest respond tx incl w)) = timers w" by (simp add: e)
qed

theorem delivery_bound_witness:
  "list_ex (\<lambda>t. id t = id example_transaction) (transactions example_world)
   \<and> callback_merchant example_world example_transaction None = Some example_merchant
   \<and> (\<forall>n. (\<lambda>n::nat. Response 500) n \<noteq> Response 200)
   \<and> fst (sendCallback (\<lambda>s. s) (\<lambda>n::nat. Response 500) example_transaction None example_world)
       = Inr False
   \<and> trace (snd (sendCallback (\<lambda>s. s) (\<lambda>n::nat. Response 500) example_transaction None example_world))
       = [Post ''https://shop.example/notify''
            (stringify (buildCallbackPayload (\<lambda>s. s) example_transaction ''secret-1'')),
          Sleep 2000,
          Post ''https://shop.example/notify''
            (stringify (buildCallbackPayload (\<lambda>s. s) example_transaction ''secret-1'')),
          Sleep 4000,
          Post ''https://shop.example/notify''
            (stringify (buildCallbackPayload (\<lambda>s. s) example_transaction ''secret-1''))]
   \<and> transactions
         (snd (sendCallback (\<lambda>s. s) (\<lambda>n::nat. Response 500) example_transaction None example_world))
       = [example_transaction\<lparr>callbackAttempts := 3,
            lastCallbackAt := Some (clock example_world + 6000)\<rparr>]
   \<and> map callbackSent (transactions
         (snd (sendCallback (\<lambda>s. s) (\<lambda>n::nat. Response 500) example_transaction None example_world)))
       = [False]
   \<and> list_all (\<lambda>t. id t = ''tx-1'' \<longrightarrow> callbackAttempts t = 3)
        (transactions
         (snd (sendCallback (\<lambda>s. s) (\<lambda>n::nat. Response 500) example_transaction None example_world)))
   \<and> (1::nat) \<le> 2 \<and> 2 \<le> maxAttempts
   \<and> (\<lambda>n::nat. if n = 2 then Response 200 else No_response) 1 \<noteq> Response 200
   \<and> (\<lambda>n::nat. if n = 2 then Response 200 else No_response) 2 = Response 200
   \<and> fst (sendCallback (\<lambda>s. s) (\<lambda>n::nat. if n = 2 then Response 200 else No_response)
            example_transaction None example_world) = Inr True
   \<and> transactions
         (snd (sendCallback (\<lambda>s. s) (\<lambda>n::nat. if n = 2 then Response 200 else No_response)
            example_transaction None example_world))
       = [example_transaction\<lparr>callbackSent := True, callbackAttempts := 2,
            lastCallbackAt := Some (clock example_world + 2000)\<rparr>]
   \<and> trace
         (snd (sendCallback (\<lambda>s. s) (\<lambda>n::nat. if n = 2 then Response 200 else No_response)
            example_transaction None example_world))
       = [Post ''https://shop.example/notify''
            (stringify (buildCallbackPayload (\<lambda>s. s) example_transaction ''secret-1'')),
          Sleep 2000,
          Post ''https://shop.example/notify''
            (stringify (buildCallbackPayload (\<lambda>s. s) example_transaction ''secret-1''))]
   \<and> list_all (\<lambda>t. id t = ''tx-1'' \<longrightarrow> callbackSent t \<and> callbackAttempts t = 2)
        (transactions
         (snd (sendCallback (\<lambda>s. s) (\<lambda>n::nat. if n = 2 then Response 200 else No_response)
            example_transaction None example_world)))"
proof -
  have ex: "list_ex (\<lambda>t. id t = id example_transaction) (transactions example_world)"
    by (simp add: example_world_def)
  have m: "callback_merchant example_world example_transaction None = Some example_merchant"
    by (simp add: callback_merchant_def example_world_def example_merchant_def
        example_transaction_def)
  have nr: "\<forall>n. (\<lambda>n::nat. Response 500) n \<noteq> Response 200" by simp
  have k: "(1::nat) \<le> 2 \<and> 2 \<le> maxAttempts
     \<and> (\<forall>j. 1 \<le> j \<and> j < 2 \<longrightarrow> (\<lambda>n::nat. if n = 2 then Response 200 else No_response) j \<noteq> Response 200)
     \<and> (\<lambda>n::nat. if n = 2 then Response 200 else No_response) (2::nat) = Response 200"
    by (simp add: maxAttempts_def)
  note f = delivery_bound[where respond = "\<lambda>n::nat. Response 500" and k = 0
      and digest = "\<lambda>s. s", OF ex m]
  note s = delivery_bound[where respond = "\<lambda>n::nat. if n = 2 then Response 200 else No_response"
      and k = 2 and digest = "\<lambda>s. s", OF ex m]
  have i: "id example_transaction = ''tx-1''" "notifyUrl example_transaction = ''https://shop.example/notify''"
    "signatureSecret example_merchant = ''secret-1''"
    "map callbackSent (transactions example_world) = [False]" "trace example_world = []"
    "transactions example_world = [example_transaction]"
    by (simp_all add: example_transaction_def example_merchant_def example_world_def)
  have u: "[1..<2] = [1::nat]" "((2::nat) ^ 2 - 2) * 1000 = 2000" "(2::nat) ^ 1 * 1000 = 2000"
    by (simp_all add: eval_nat_numeral)
  from f nr have f0: "sendCallback (\<lambda>s. s) (\<lambda>n::nat. Response 500) example_transaction None example_world =
          (Inr False,
           example_world\<lparr>clock := clock example_world + 6000,
             trace := trace example_world @
               [Post (notifyUrl example_transaction)
                  (stringify (buildCallbackPayload (\<lambda>s. s) example_transaction (signatureSecret example_merchant))),
                Sleep 2000,
                Post (notifyUrl example_transaction)
                  (stringify (buildCallbackPayload (\<lambda>s. s) example_transaction (signatureSecret example_merchant))),
                Sleep 4000,
                Post (notifyUrl example_transaction)
                  (stringify (buildCallbackPayload (\<lambda>s. s) example_transaction (signatureSecret example_merchant)))],
             transactions := map (\<lambda>t. if id t = id example_transaction
                  then t\<lparr>callbackAttempts := 3, lastCallbackAt := Some (clock example_world + 6000)\<rparr> else t)
                (transactions example_world)\<rparr>)"
    by blast
  from s k have s0: "sendCallback (\<lambda>s. s) (\<lambda>n::nat. if n = 2 then Response 200 else No_response)
            example_transaction None example_world =
          (Inr True,
           example_world\<lparr>clock := clock example_world + (2 ^ 2 - 2) * 1000,
             trace := trace example_world @
               concat (map (\<lambda>j. [Post (notifyUrl example_transaction)
                  (stringify (buildCallbackPayload (\<lambda>s. s) example_transaction (signatureSecret example_merchant))),
                                 Sleep (2 ^ j * 1000)]) [1..<2])
               @ [Post (notifyUrl example_transaction)
                  (stringify (buildCallbackPayload (\<lambda>s. s) example_transaction (signatureSecret example_merchant)))],
             transactions := map (\<lambda>t. if id t = id example_transaction
                  then t\<lparr>callbackSent := True, callbackAttempts := 2,
                         lastCallbackAt := Some (clock example_world + (2 ^ 2 - 2) * 1000)\<rparr> else t)
                (transactions example_world)\<rparr>)"
    by blast
  have f': "fst (sendCallback (\<lambda>s. s) (\<lambda>n::nat. Response 500) example_transaction None example_world)
       = Inr False
   \<and> trace (snd (sendCallback (\<lambda>s. s) (\<lambda>n::nat. Response 500) example_transaction None example_world))
       = [Post ''https://shop.example/notify''
            (stringify (buildCallbackPayload (\<lambda>s. s) example_transaction ''secret-1'')),
          Sleep 2000,
          Post ''https://shop.example/notify''
            (stringify (buildCallbackPayload (\<lambda>s. s) example_transaction ''secret-1'')),
          Sleep 4000,
          Post ''https://shop.example/notify''
            (stringify (buildCallbackPayload (\<lambda>s. s) example_transaction ''secret-1''))]
   \<and> transactions
         (snd (sendCallback (\<lambda>s. s) (\<lambda>n::nat. Response 500) example_transaction None example_world))
       = [example_transaction\<lparr>callbackAttempts := 3,
            lastCallbackAt := Some (clock example_world + 6000)\<rparr>]"
    unfolding f0 by (simp add: i)
  have f'': "map callbackSent (transactions
         (snd (sendCallback (\<lambda>s. s) (\<lambda>n::nat. Response 500) example_transaction None example_world)))
       = [False]
   \<and> list_all (\<lambda>t. id t = ''tx-1'' \<longrightarrow> callbackAttempts t = 3)
        (transactions
         (snd (sendCallback (\<lambda>s. s) (\<lambda>n::nat. Response 500) example_transaction None example_world)))"
    unfolding f0 by (simp add: i) (simp add: example_transaction_def)
  have s': "fst (sendCallback (\<lambda>s. s) (\<lambda>n::nat. if n = 2 then Response 200 else No_response)
            example_transaction None example_world) = Inr True
   \<and> transactions
         (snd (sendCallback (\<lambda>s. s) (\<lambda>n::nat. if n = 2 then Response 200 else No_response)
            example_transaction None example_world))
       = [example_transaction\<lparr>callbackSent := True, callbackAttempts := 2,
            lastCallbackAt := Some (clock example_world + 2000)\<rparr>]
   \<and> trace
         (snd (sendCallback (\<lambda>s. s) (\<lambda>n::nat. if n = 2 then Response 200 else No_response)
            example_transaction None example_world))
       = [Post ''https://shop.example/notify''
            (stringify (buildCallbackPayload (\<lambda>s. s) example_transaction ''secret-1'')),
          Sleep 2000,
          Post ''https://shop.example/notify''
            (stringify (buildCallbackPayload (\<lambda>s. s) example_transaction ''secret-1''))]"
    unfolding s0 u by (simp add: i)
  have s'': "list_all (\<lambda>t. id t = ''tx-1'' \<longrightarrow> callbackSent t \<and> callbackAttempts t = 2)
        (transactions
         (snd (sendCallback (\<lambda>s. s) (\<lambda>n::nat. if n = 2 then Response 200 else No_response)
            example_transaction None example_world)))"
    unfolding s0 u by (simp add: i)
  show ?thesis using ex m nr k f' f'' s' s'' by (simp add: maxAttempts_def)
qed

lemma find_with_merchant_Some:
  assumes "find_with_merchant w tid = Some (tx, incl)"
  shows "id tx = tid \<and> list_ex (\<lambda>t. id t = id tx) (transactions w)"
proof -
  from assms have f: "find (\<lambda>t. id t = tid) (transactions w) = Some tx"
    by (auto simp: find_with_merchant_def split: option.splits)
  then have "id tx = tid \<and> tx \<in> set (transactions w)"
    by (auto simp: find_Some_iff)
  then show ?thesis by (auto simp: list_ex_iff)
qed

lemma triggerCallbackManually_eq:
  assumes "find_with_merchant w tid = Some (tx, incl)"
  shows "snd (triggerCallbackManually digest respond w tid) = snd (sendCallback digest respond tx incl w)"
  using assms by (simp add: triggerCallbackManually_def split: prod.splits sum.splits)

lemma run_Callback_task_eq:
  assumes "find_with_merchant w tid = Some (tx, incl)"
  shows "run_task config digest rnd respond w (Callback_task tid) = snd (sendCallback digest respond tx incl w)"
  using assms by (simp add: run_task_def)

lemma example_undelivered_eq:
  "transactions example_undelivered =
     [example_transaction\<lparr>callbackAttempts := 3, lastCallbackAt := Some 1700000009000\<rparr>]
   \<and> merchants example_undelivered = [example_merchant]"
proof -
  have ex: "list_ex (\<lambda>t. id t = id example_transaction) (transactions example_world)"
    by (simp add: example_world_def)
  have m: "callback_merchant example_world example_transaction (Some example_merchant)
      = Some example_merchant"
    by (simp add: callback_merchant_def)
  have nr: "\<forall>n. (\<lambda>n::nat. Response 500) n \<noteq> Response 200" by simp
  show ?thesis
    unfolding example_undelivered_def
    by (simp add: sendCallback_all_fail[where respond="\<lambda>n::nat. Response 500", OF ex m nr])
       (simp add: example_world_def)
qed

lemma example_undelivered_find:
  "find_with_merchant example_undelivered ''tx-1''
     = Some (example_transaction\<lparr>callbackAttempts := 3, lastCallbackAt := Some 1700000009000\<rparr>,
             Some example_merchant)"
  by (simp add: find_with_merchant_def example_undelivered_eq)
     (simp add: example_transaction_def example_merchant_def)

subsection \<open>Claim C6: the attempt counter across deliveries\<close>

text \<open>
  C6 says that over any sequence of deliveries of a transaction, scheduled or triggered
  by hand, the stored \<^verbatim>\<open>callbackAttempts\<close> never decreases, a manual trigger going on
  from the previous value. The program stores the number of the attempt within the
  current call of \<^verbatim>\<open>sendCallback\<close>, which starts from 1 in every call: the example
  transaction has the counter 3 after a delivery whose three attempts failed, and 1 after
  a manual trigger whose first attempt succeeds.
\<close>

theorem callbackAttempts_restart_counterexample:
  "map callbackAttempts (transactions example_undelivered) = [3]
   \<and> map callbackAttempts
        (transactions (snd (triggerCallbackManually (\<lambda>s. s) (\<lambda>n::nat. Response 200)
                              example_undelivered ''tx-1''))) = [1]"
proof -
  let ?tx = "example_transaction\<lparr>callbackAttempts := 3, lastCallbackAt := Some 1700000009000\<rparr>"
  have 1: "map callbackAttempts (transactions example_undelivered) = [3]"
    by (simp add: example_undelivered_eq)
  have ex: "list_ex (\<lambda>t. id t = id ?tx) (transactions example_undelivered)"
    by (simp add: example_undelivered_eq)
  have m: "callback_merchant example_undelivered ?tx (Some example_merchant) = Some example_merchant"
    by (simp add: callback_merchant_def)
  have ok: "(\<lambda>n::nat. Response 200) 1 = Response 200" by simp
  have "snd (triggerCallbackManually (\<lambda>s. s) (\<lambda>n::nat. Response 200) example_undelivered ''tx-1'')
      = snd (sendCallback (\<lambda>s. s) (\<lambda>n::nat. Response 200) ?tx (Some example_merchant)
               example_undelivered)"
    using example_undelivered_find by (rule triggerCallbackManually_eq)
  then have 2: "map callbackAttempts
        (transactions (snd (triggerCallbackManually (\<lambda>s. s) (\<lambda>n::nat. Response 200)
                              example_undelivered ''tx-1''))) = [1]"
    by (simp add: sendCallback_success_first[where respond="\<lambda>n::nat. Response 200", OF ex m ok]
        example_undelivered_eq)
  from 1 2 show ?thesis by simp
qed

text \<open>
  C6 as amended: a delivery of a stored transaction whose merchant is found, scheduled or
  triggered by hand, leaves in \<^verbatim>\<open>callbackAttempts\<close> the number of attempts this
  delivery made, whatever the counter was before: 3 when no attempt is answered with
  200, and \<open>k\<close> when the \<open>k\<close>-th attempt is the first one answered with 200. The
  scheduled callback and the manual trigger change the state in the same way. The store
  after the delivery is the one before it with the record of the transaction changed, and
  nothing else.
\<close>

theorem callbackAttempts_per_invocation:
  assumes f: "find_with_merchant w tid = Some (tx, Some m)"
  shows
    "((\<forall>n. respond n \<noteq> Response 200) \<longrightarrow>
        (\<forall>t \<in> set (transactions (snd (triggerCallbackManually digest respond w tid))).
           id t = tid \<longrightarrow> callbackAttempts t = 3)
        \<and> transactions (snd (triggerCallbackManually digest respond w tid))
            = map (\<lambda>t. if id t = tid
                    then t\<lparr>callbackAttempts := 3, lastCallbackAt := Some (clock w + 6000)\<rparr>
                    else t) (transactions w))
     \<and> (1 \<le> k \<and> k \<le> maxAttempts \<and> (\<forall>j. 1 \<le> j \<and> j < k \<longrightarrow> respond j \<noteq> Response 200)
         \<and> respond k = Response 200 \<longrightarrow>
        (\<forall>t \<in> set (transactions (snd (triggerCallbackManually digest respond w tid))).
           id t = tid \<longrightarrow> callbackAttempts t = k)
        \<and> transactions (snd (triggerCallbackManually digest respond w tid))
            = map (\<lambda>t. if id t = tid
                    then t\<lparr>callbackSent := True, callbackAttempts := k,
                           lastCallbackAt := Some (clock w + (2 ^ k - 2) * 1000)\<rparr>
                    else t) (transactions w))
     \<and> run_task config digest rnd respond w (Callback_task tid)
         = snd (triggerCallbackManually digest respond w tid)"
proof -
  have i: "id tx = tid" and ex: "list_ex (\<lambda>t. id t = id tx) (transactions w)"
    using find_with_merchant_Some[OF f] by blast+
  have m: "callback_merchant w tx (Some m) = Some m" by (simp add: callback_merchant_def)
  have e: "snd (triggerCallbackManually digest respond w tid)
      = snd (sendCallback digest respond tx (Some m) w)"
    using f by (rule triggerCallbackManually_eq)
  have 1: "(\<forall>n. respond n \<noteq> Response 200) \<longrightarrow>
        (\<forall>t \<in> set (transactions (snd (triggerCallbackManually digest respond w tid))).
           id t = tid \<longrightarrow> callbackAttempts t = 3)
        \<and> transactions (snd (triggerCallbackManually digest respond w tid))
            = map (\<lambda>t. if id t = tid
                    then t\<lparr>callbackAttempts := 3, lastCallbackAt := Some (clock w + 6000)\<rparr>
                    else t) (transactions w)"
  proof (intro impI conjI)
    assume nr: "\<forall>n. respond n \<noteq> Response 200"
    note r = sendCallback_all_fail[where respond=respond and digest=digest, OF ex m nr]
    show "\<forall>t \<in> set (transactions (snd (triggerCallbackManually digest respond w tid))).
           id t = tid \<longrightarrow> callbackAttempts t = 3"
      unfolding e using r i by auto
    show "transactions (snd (triggerCallbackManually digest respond w tid))
            = map (\<lambda>t. if id t = tid
                    then t\<lparr>callbackAttempts := 3, lastCallbackAt := Some (clock w + 6000)\<rparr>
                    else t) (transactions w)"
      unfolding e r by (simp add: i)
  qed
  have 2: "1 \<le> k \<and> k \<le> maxAttempts \<and> (\<forall>j. 1 \<le> j \<and> j < k \<longrightarrow> respond j \<noteq> Response 200)
         \<and> respond k = Response 200 \<longrightarrow>
        (\<forall>t \<in> set (transactions (snd (triggerCallbackManually digest respond w tid))).
           id t = tid \<longrightarrow> callbackAttempts t = k)
        \<and> transactions (snd (triggerCallbackManually digest respond w tid))
            = map (\<lambda>t. if id t = tid
                    then t\<lparr>callbackSent := True, callbackAttempts := k,
                           lastCallbackAt := Some (clock w + (2 ^ k - 2) * 1000)\<rparr>
                    else t) (transactions w)"
  proof (intro impI conjI)
    assume a: "1 \<le> k \<and> k \<le> maxAttempts \<and> (\<forall>j. 1 \<le> j \<and> j < k \<longrightarrow> respond j \<noteq> Response 200)
         \<and> respond k = Response 200"
    note r = sendCallback_first_success_world[where respond=respond and digest=digest, OF ex m a]
    show "\<forall>t \<in> set (transactions (snd (triggerCallbackManually digest respond w tid))).
           id t = tid \<longrightarrow> callbackAttempts t = k"
      unfolding e using sendCallback_first_success[where respond=respond and digest=digest, OF ex m a] i by auto
    show "transactions (snd (triggerCallbackManually digest respond w tid))
            = map (\<lambda>t. if id t = tid
                    then t\<lparr>callbackSent := True, callbackAttempts := k,
                           lastCallbackAt := Some (clock w + (2 ^ k - 2) * 1000)\<rparr>
                    else t) (transactions w)"
      unfolding e r by (simp add: i)
  qed
  have 3: "run_task config digest rnd respond w (Callback_task tid)
         = snd (triggerCallbackManually digest respond w tid)"
    unfolding e using f by (rule run_Callback_task_eq)
  from 1 2 3 show ?thesis by blast
qed

theorem callbackAttempts_per_invocation_witness:
  "find_with_merchant example_undelivered ''tx-1''
     = Some (example_transaction\<lparr>callbackAttempts := 3, lastCallbackAt := Some 1700000009000\<rparr>,
             Some example_merchant)
   \<and> (\<forall>n. (\<lambda>n::nat. No_response) n \<noteq> Response 200)
   \<and> list_all (\<lambda>t. id t = ''tx-1'' \<longrightarrow> callbackAttempts t = 3)
        (transactions (snd (triggerCallbackManually (\<lambda>s. s) (\<lambda>n::nat. No_response)
                              example_undelivered ''tx-1'')))
   \<and> (1::nat) \<le> 2 \<and> 2 \<le> maxAttempts
   \<and> (\<lambda>n::nat. if n = 2 then Response 200 else Response 503) 1 \<noteq> Response 200
   \<and> (\<lambda>n::nat. if n = 2 then Response 200 else Response 503) 2 = Response 200
   \<and> list_all (\<lambda>t. id t = ''tx-1'' \<longrightarrow> callbackAttempts t = 2)
        (transactions (snd (triggerCallbackManually (\<lambda>s. s)
                              (\<lambda>n::nat. if n = 2 then Response 200 else Response 503)
                              example_undelivered ''tx-1'')))
   \<and> map callbackAttempts
        (transactions (snd (triggerCallbackManually (\<lambda>s. s)
                              (\<lambda>n::nat. if n = 2 then Response 200 else Response 503)
                              example_undelivered ''tx-1''))) = [2]"
proof -
  note f = example_undelivered_find
  have nr: "\<forall>n. (\<lambda>n::nat. No_response) n \<noteq> Response 200" by simp
  have k: "(1::nat) \<le> 2 \<and> 2 \<le> maxAttempts
     \<and> (\<forall>j. 1 \<le> j \<and> j < 2 \<longrightarrow> (\<lambda>n::nat. if n = 2 then Response 200 else Response 503) j \<noteq> Response 200)
     \<and> (\<lambda>n::nat. if n = 2 then Response 200 else Response 503) 2 = Response 200"
    by (simp add: maxAttempts_def)
  note a = callbackAttempts_per_invocation[where respond = "\<lambda>n::nat. No_response" and k = 0
      and digest = "\<lambda>s. s", OF f]
  note b = callbackAttempts_per_invocation[where k = 2
      and respond = "\<lambda>n::nat. if n = 2 then Response 200 else Response 503"
      and digest = "\<lambda>s. s", OF f]
  from a nr have a': "\<forall>t \<in> set (transactions (snd (triggerCallbackManually (\<lambda>s. s) (\<lambda>n::nat. No_response)
                                       example_undelivered ''tx-1''))).
         id t = ''tx-1'' \<longrightarrow> callbackAttempts t = 3" by blast
  from b k have b': "\<forall>t \<in> set (transactions (snd (triggerCallbackManually (\<lambda>s. s)
                                       (\<lambda>n::nat. if n = 2 then Response 200 else Response 503)
                                       example_undelivered ''tx-1''))).
         id t = ''tx-1'' \<longrightarrow> callbackAttempts t = 2" by blast
  from b k have "transactions (snd (triggerCallbackManually (\<lambda>s. s)
                              (\<lambda>n::nat. if n = 2 then Response 200 else Response 503)
                              example_undelivered ''tx-1''))
            = map (\<lambda>t. if id t = ''tx-1''
                    then t\<lparr>callbackSent := True, callbackAttempts := 2,
                           lastCallbackAt := Some (clock example_undelivered + (2 ^ 2 - 2) * 1000)\<rparr>
                    else t) (transactions example_undelivered)" by blast
  then have c': "map callbackAttempts
        (transactions (snd (triggerCallbackManually (\<lambda>s. s)
                              (\<lambda>n::nat. if n = 2 then Response 200 else Response 503)
                              example_undelivered ''tx-1''))) = [2]"
    by (simp add: example_undelivered_eq) (simp add: example_transaction_def)
  show ?thesis using f nr k a' b' c' by (simp add: list_all_iff maxAttempts_def)
qed

section \<open>Properties of the payment page route\<close>

lemma updateTransactionStatus_Inr:
  "list_ex (\<lambda>t. requestReference t = r) store \<Longrightarrow>
   updateTransactionStatus store now r st completed =
     Inr (map (\<lambda>tx. if requestReference tx = r
                 then tx\<lparr> status := st,
                         completedTime := (case completed of Some t \<Rightarrow> Some t
                              | None \<Rightarrow> (if st = ''1'' \<or> st = ''2'' then Some now else None)) \<rparr>
                 else tx) store)"
  by (simp add: updateTransactionStatus_def)

lemma run_Processing_task:
  assumes "list_ex (\<lambda>t. requestReference t = requestReference tx) (transactions w)"
  shows "run_task config digest rnd respond w (Processing_task tx body token) =
     w\<lparr> transactions := map (\<lambda>t. if requestReference t = requestReference tx
                                 then t\<lparr>status := ''4'', completedTime := None\<rparr> else t)
                            (transactions w),
        timers := timers w @
          [\<lparr> scheduled_at = clock w,
             delay = payment_callbackDelay config - payment_processingDelay config,
             task = Final_task tx
               (getOutcomeForTransaction (scenario w) rnd (req_amount body) (req_network body)
                  token) \<rparr>] \<rparr>"
  using assms
  by (simp add: run_task_def updateTransactionStatus_Inr setTimeout_def determinePaymentOutcome_def
      cong: if_cong)

lemma run_Final_task:
  assumes "list_ex (\<lambda>t. requestReference t = requestReference tx) (transactions w)"
  shows "run_task config digest rnd respond w (Final_task tx finalStatus) =
     w\<lparr> transactions := map (\<lambda>t. if requestReference t = requestReference tx
                                 then t\<lparr>status := finalStatus, completedTime := Some (clock w)\<rparr>
                                 else t)
                            (transactions w),
        timers := timers w @
          [\<lparr> scheduled_at = clock w, delay = 0, task = Callback_task (id tx) \<rparr>] \<rparr>"
  using assms
  by (simp add: run_task_def updateTransactionStatus_Inr setTimeout_def scheduleCallback_def
      cong: if_cong)

lemma Decimal_of_9999: "Decimal_of_string ''99.99'' = Some (Digits ''99'' ''99'')"
  by (simp add: Decimal_of_string_def is_digit_def)

lemma example_created_eq:
  "example_created config example_start =
     example_start\<lparr> transactions := [example_pending],
        timers := [\<lparr> scheduled_at = 1700000000000, delay = payment_processingDelay config,
                     task = Processing_task example_pending example_request ''token-1'' \<rparr>] \<rparr>"
  by (simp add: example_created_def payment_page_handler_def createTransaction_def
      example_request_def Decimal_of_9999 example_start_def example_merchant_def
      example_pending_def setTimeout_def Let_def)

lemma pick_next_single: "pick_next [t] = Some (t, [])"
  by simp

lemma example_processing:
  "fire_next example_config digest rnd respond (example_created example_config example_start) =
     example_start\<lparr> clock := 1700000001000,
        transactions := [example_pending\<lparr>status := ''4''\<rparr>],
        timers := [\<lparr> scheduled_at = 1700000001000, delay = 2000,
                     task = Final_task example_pending ''1'' \<rparr>] \<rparr>"
proof -
  let ?w = "example_start\<lparr> transactions := [example_pending],
        timers := [], clock := 1700000001000 \<rparr>"
  have ex: "list_ex (\<lambda>t. requestReference t = requestReference example_pending) (transactions ?w)"
    by simp
  have o: "getOutcomeForTransaction (scenario ?w) rnd (req_amount example_request)
      (req_network example_request) ''token-1'' = ''1''"
    by (simp add: getOutcomeForTransaction_def example_start_def initialScenario_def
        example_config_def)
  have "fire_next example_config digest rnd respond (example_created example_config example_start)
      = run_task example_config digest rnd respond ?w
          (Processing_task example_pending example_request ''token-1'')"
    unfolding fire_next_def example_created_eq
    by (simp add: timer_due_def example_config_def example_start_def)
  also have "\<dots> = example_start\<lparr> clock := 1700000001000,
        transactions := [example_pending\<lparr>status := ''4''\<rparr>],
        timers := [\<lparr> scheduled_at = 1700000001000, delay = 2000,
                     task = Final_task example_pending ''1'' \<rparr>] \<rparr>"
    unfolding run_Processing_task[OF ex] o
    by (simp add: example_config_def example_pending_def example_start_def)
  finally show ?thesis .
qed

lemma example_in_processing_eq:
  "example_in_processing =
     example_start\<lparr> clock := 1700000001000,
        transactions := [example_pending\<lparr>status := ''4''\<rparr>],
        timers := [\<lparr> scheduled_at = 1700000001000, delay = 2000,
                     task = Final_task example_pending ''1'' \<rparr>] \<rparr>"
  unfolding example_in_processing_def by (rule example_processing)

lemma example_terminal:
  "fire_next example_config digest rnd respond (admin_scenarios example_in_processing fail_99) =
     example_start\<lparr> clock := 1700000003000,
        scenario := setScenario (initialScenario example_config) fail_99,
        transactions := [example_pending\<lparr>status := ''1'', completedTime := Some 1700000003000\<rparr>],
        timers := [\<lparr> scheduled_at = 1700000003000, delay = 0,
                     task = Callback_task ''tx-2'' \<rparr>] \<rparr>"
proof -
  let ?w = "example_start\<lparr> clock := 1700000003000,
        scenario := setScenario (initialScenario example_config) fail_99,
        transactions := [example_pending\<lparr>status := ''4''\<rparr>], timers := [] \<rparr>"
  have ex: "list_ex (\<lambda>t. requestReference t = requestReference example_pending) (transactions ?w)"
    by simp
  have "fire_next example_config digest rnd respond (admin_scenarios example_in_processing fail_99)
      = run_task example_config digest rnd respond ?w (Final_task example_pending ''1'')"
    unfolding fire_next_def example_in_processing_eq admin_scenarios_def
    by (simp add: timer_due_def example_start_def)
  also have "\<dots> = example_start\<lparr> clock := 1700000003000,
        scenario := setScenario (initialScenario example_config) fail_99,
        transactions := [example_pending\<lparr>status := ''1'', completedTime := Some 1700000003000\<rparr>],
        timers := [\<lparr> scheduled_at = 1700000003000, delay = 0,
                     task = Callback_task ''tx-2'' \<rparr>] \<rparr>"
    unfolding run_Final_task[OF ex]
    by (simp add: example_pending_def example_start_def)
  finally show ?thesis .
qed

lemma example_created_general:
  "example_created config w =
     w\<lparr> transactions := transactions w @ [example_pending\<lparr>createdTime := clock w\<rparr>],
        timers := timers w @
          [\<lparr> scheduled_at = clock w, delay = payment_processingDelay config,
             task = Processing_task (example_pending\<lparr>createdTime := clock w\<rparr>) example_request
                      ''token-1'' \<rparr>] \<rparr>"
  by (simp add: example_created_def payment_page_handler_def createTransaction_def
      example_request_def Decimal_of_9999 example_merchant_def
      example_pending_def setTimeout_def Let_def)

lemma createTransaction_ids:
  "createTransaction store new_id new_reference now data merchant = Inr (created, store') \<Longrightarrow>
   id created = new_id \<and> requestReference created = new_reference \<and> status created = ''0''
   \<and> completedTime created = None \<and> store' = store @ [created]"
  by (auto simp: createTransaction_def Let_def split: option.splits)

lemma fire_next_single:
  "timers w = [t] \<Longrightarrow>
   fire_next config digest rnd respond w =
     run_task config digest rnd respond (w\<lparr>timers := [], clock := max (clock w) (timer_due t)\<rparr>)
       (task t)"
  by (simp add: fire_next_def)

subsection \<open>Claim C1: when the outcome is decided\<close>

text \<open>
  C1 says that the first timer only sets the status to PROCESSING, that no outcome is
  decided then, and that the outcome engine is consulted when the terminal status is
  written, so that a change of the rules between the two transitions decides the outcome.
  In the program the first timer, once it has written PROCESSING, calls
  \<^verbatim>\<open>determinePaymentOutcome\<close> at once and keeps the result in the closure of the second
  timer. For the example request of amount \<^verbatim>\<open>99.99\<close>, with no rule and the default
  SUCCESS when the first timer runs, a rule failing amounts that end in \<^verbatim>\<open>.99\<close> is set
  before the second timer runs: the engine then answers FAIL, and the status written is
  SUCCESS.
\<close>

theorem outcome_decided_at_processing_counterexample:
  "map status (transactions example_in_processing) = [''4'']
   \<and> getOutcomeForTransaction (scenario (admin_scenarios example_in_processing fail_99)) 0
        ''99.99'' ''Alipay'' ''token-1'' = ''2''
   \<and> map status (transactions
        (fire_next example_config (\<lambda>s. s) 0 (\<lambda>n::nat. Response 200)
           (admin_scenarios example_in_processing fail_99))) = [''1'']"
proof -
  have 1: "map status (transactions example_in_processing) = [''4'']"
    by (simp add: example_in_processing_eq)
  have 2: "getOutcomeForTransaction (scenario (admin_scenarios example_in_processing fail_99)) 0
        ''99.99'' ''Alipay'' ''token-1'' = ''2''"
    by (simp add: example_in_processing_eq admin_scenarios_def example_start_def
        getOutcomeForTransaction_def setScenario_def fail_99_def endsWith_def)
  have 3: "map status (transactions
        (fire_next example_config (\<lambda>s. s) 0 (\<lambda>n::nat. Response 200)
           (admin_scenarios example_in_processing fail_99))) = [''1'']"
    by (simp add: example_terminal)
  from 1 2 3 show ?thesis by simp
qed

text \<open>
  C1 as amended: for every transaction that the payment page request creates, the handler
  sets one timer, of delay \<^verbatim>\<open>processingDelay\<close>, that carries the transaction, the
  body of the request and the token of the merchant. When this first timer runs, it
  writes the status PROCESSING (leaving \<^verbatim>\<open>completedTime\<close> empty), consults the outcome
  engine at once, with the scenario then in force and the amount, network and merchant
  token of the request, and sets the second timer with this result. When the second timer
  runs, it writes the status it was given and the completion time and schedules the
  callback of the transaction, with no delay; the scenario in force then plays no part.
  The worlds \<open>wp\<close> and \<open>wt\<close> in which the two timers run are any in which the
  transaction is still stored.
\<close>

theorem outcome_decided_at_processing:
  assumes c: "createTransaction (transactions w) new_id new_reference (clock w) body
                (merchant_id merchant) = Inr (created, txs)"
    and stp: "list_ex (\<lambda>t. requestReference t = new_reference) (transactions wp)"
    and stt: "list_ex (\<lambda>t. requestReference t = new_reference) (transactions wt)"
  shows
    "payment_page_handler config w new_id new_reference body merchant =
       Inr (w\<lparr> transactions := transactions w @ [created],
               timers := timers w @
                 [\<lparr> scheduled_at = clock w, delay = payment_processingDelay config,
                    task = Processing_task created body (merchantToken merchant) \<rparr>] \<rparr>)
     \<and> id created = new_id \<and> requestReference created = new_reference
     \<and> status created = ''0'' \<and> completedTime created = None
     \<and> (1 \<le> payment_processingDelay config \<and> payment_processingDelay config \<le> 2147483647 \<longrightarrow>
          timer_due \<lparr> scheduled_at = clock w, delay = payment_processingDelay config,
                      task = Processing_task created body (merchantToken merchant) \<rparr>
            = clock w + nat (payment_processingDelay config))
     \<and> run_task config digest rnd respond wp
          (Processing_task created body (merchantToken merchant)) =
         wp\<lparr> transactions := map (\<lambda>t. if requestReference t = new_reference
                                      then t\<lparr>status := ''4'', completedTime := None\<rparr> else t)
                                 (transactions wp),
             timers := timers wp @
               [\<lparr> scheduled_at = clock wp,
                  delay = payment_callbackDelay config - payment_processingDelay config,
                  task = Final_task created
                    (getOutcomeForTransaction (scenario wp) rnd (req_amount body)
                       (req_network body) (merchantToken merchant)) \<rparr>] \<rparr>
     \<and> run_task config digest rnd' respond' wt (Final_task created finalStatus) =
         wt\<lparr> transactions := map (\<lambda>t. if requestReference t = new_reference
                                      then t\<lparr>status := finalStatus,
                                             completedTime := Some (clock wt)\<rparr>
                                      else t)
                                 (transactions wt),
             timers := timers wt @
               [\<lparr> scheduled_at = clock wt, delay = 0, task = Callback_task new_id \<rparr>] \<rparr>
     \<and> transactions (run_task config digest rnd' respond' (admin_scenarios wt update)
                        (Final_task created finalStatus))
         = transactions (run_task config digest rnd' respond' wt (Final_task created finalStatus))"
proof -
  have i: "id created = new_id" "requestReference created = new_reference"
    "status created = ''0''" "completedTime created = None" "txs = transactions w @ [created]"
    using createTransaction_ids[OF c] by blast+
  have ep: "list_ex (\<lambda>t. requestReference t = requestReference created) (transactions wp)"
    using stp i(2) by simp
  have ef: "list_ex (\<lambda>t. requestReference t = requestReference created) (transactions wt)"
    using stt i(2) by simp
  have ea: "list_ex (\<lambda>t. requestReference t = requestReference created)
      (transactions (admin_scenarios wt update))"
    using ef by (simp add: admin_scenarios_def)
  have h: "payment_page_handler config w new_id new_reference body merchant =
       Inr (w\<lparr> transactions := transactions w @ [created],
               timers := timers w @
                 [\<lparr> scheduled_at = clock w, delay = payment_processingDelay config,
                    task = Processing_task created body (merchantToken merchant) \<rparr>] \<rparr>)"
    by (simp add: payment_page_handler_def c i(5) setTimeout_def)
  have d: "1 \<le> payment_processingDelay config \<and> payment_processingDelay config \<le> 2147483647 \<longrightarrow>
          timer_due \<lparr> scheduled_at = clock w, delay = payment_processingDelay config,
                      task = Processing_task created body (merchantToken merchant) \<rparr>
            = clock w + nat (payment_processingDelay config)"
    by (simp add: timer_due_def)
  have p: "run_task config digest rnd respond wp
          (Processing_task created body (merchantToken merchant)) =
         wp\<lparr> transactions := map (\<lambda>t. if requestReference t = new_reference
                                      then t\<lparr>status := ''4'', completedTime := None\<rparr> else t)
                                 (transactions wp),
             timers := timers wp @
               [\<lparr> scheduled_at = clock wp,
                  delay = payment_callbackDelay config - payment_processingDelay config,
                  task = Final_task created
                    (getOutcomeForTransaction (scenario wp) rnd (req_amount body)
                       (req_network body) (merchantToken merchant)) \<rparr>] \<rparr>"
    unfolding run_Processing_task[OF ep] i(2) ..
  have f: "run_task config digest rnd' respond' wt (Final_task created finalStatus) =
         wt\<lparr> transactions := map (\<lambda>t. if requestReference t = new_reference
                                      then t\<lparr>status := finalStatus,
                                             completedTime := Some (clock wt)\<rparr>
                                      else t)
                                 (transactions wt),
             timers := timers wt @
               [\<lparr> scheduled_at = clock wt, delay = 0, task = Callback_task new_id \<rparr>] \<rparr>"
    unfolding run_Final_task[OF ef] i(1,2) ..
  have a: "transactions (run_task config digest rnd' respond' (admin_scenarios wt update)
                        (Final_task created finalStatus))
         = transactions (run_task config digest rnd' respond' wt (Final_task created finalStatus))"
    unfolding run_Final_task[OF ef] run_Final_task[OF ea] by (simp add: admin_scenarios_def)
  from h i(1-4) d p f a show ?thesis by (intro conjI)
qed

theorem outcome_decided_at_processing_witness:
  "createTransaction (transactions example_start) ''tx-2'' ''req-2'' (clock example_start)
     example_request (merchant_id example_merchant) = Inr (example_pending, [example_pending])
   \<and> list_ex (\<lambda>t. requestReference t = ''req-2'')
        (transactions (example_created example_config example_start))
   \<and> list_ex (\<lambda>t. requestReference t = ''req-2'')
        (transactions (admin_scenarios example_in_processing fail_99))
   \<and> payment_page_handler example_config example_start ''tx-2'' ''req-2'' example_request
        example_merchant
       = Inr (example_start\<lparr> transactions := [example_pending],
                timers := [\<lparr> scheduled_at = 1700000000000, delay = 1000,
                             task = Processing_task example_pending example_request ''token-1'' \<rparr>] \<rparr>)
   \<and> timer_due \<lparr> scheduled_at = 1700000000000, delay = 1000,
                  task = Processing_task example_pending example_request ''token-1'' \<rparr>
       = 1700000001000
   \<and> map status (transactions
        (run_task example_config (\<lambda>s. s) 0 (\<lambda>n::nat. Response 200)
           (example_created example_config example_start)
           (Processing_task example_pending example_request ''token-1''))) = [''4'']
   \<and> map task (timers
        (run_task example_config (\<lambda>s. s) 0 (\<lambda>n::nat. Response 200)
           (example_created example_config example_start)
           (Processing_task example_pending example_request ''token-1'')))
       = [Processing_task example_pending example_request ''token-1'',
          Final_task example_pending ''1'']
   \<and> getOutcomeForTransaction (scenario (admin_scenarios example_in_processing fail_99)) 0
        ''99.99'' ''Alipay'' ''token-1'' = ''2''
   \<and> map status (transactions
        (run_task example_config (\<lambda>s. s) 0 (\<lambda>n::nat. Response 200)
           (admin_scenarios example_in_processing fail_99)
           (Final_task example_pending ''1''))) = [''1'']
   \<and> map task (timers
        (run_task example_config (\<lambda>s. s) 0 (\<lambda>n::nat. Response 200)
           (admin_scenarios example_in_processing fail_99)
           (Final_task example_pending ''1'')))
       = [Final_task example_pending ''1'', Callback_task ''tx-2'']"
proof -
  let ?wp = "example_created example_config example_start"
  let ?wt = "admin_scenarios example_in_processing fail_99"
  have c: "createTransaction (transactions example_start) ''tx-2'' ''req-2'' (clock example_start)
     example_request (merchant_id example_merchant) = Inr (example_pending, [example_pending])"
    by (simp add: createTransaction_def example_request_def Decimal_of_9999 example_pending_def
        example_start_def example_merchant_def Let_def)
  have stp: "list_ex (\<lambda>t. requestReference t = ''req-2'') (transactions ?wp)"
    by (simp add: example_created_eq example_pending_def)
  have stt: "list_ex (\<lambda>t. requestReference t = ''req-2'') (transactions ?wt)"
    by (simp add: admin_scenarios_def example_in_processing_eq example_pending_def)
  note t = outcome_decided_at_processing[where config = example_config and digest = "\<lambda>s. s"
      and rnd = 0 and rnd' = 0 and respond = "\<lambda>n::nat. Response 200"
      and respond' = "\<lambda>n::nat. Response 200" and finalStatus = "''1''" and update = fail_99,
      OF c stp stt]
  have o: "getOutcomeForTransaction (scenario example_start) 0 (req_amount example_request)
      (req_network example_request) ''token-1'' = ''1''"
    by (simp add: getOutcomeForTransaction_def example_start_def
        initialScenario_def example_config_def)
  have r: "requestReference example_pending = ''req-2''" by (simp add: example_pending_def)
  have o2: "getOutcomeForTransaction (scenario ?wt) 0 ''99.99'' ''Alipay'' ''token-1'' = ''2''"
    by (simp add: example_in_processing_eq admin_scenarios_def example_start_def
        getOutcomeForTransaction_def setScenario_def fail_99_def endsWith_def)
  have v: "merchantToken example_merchant = ''token-1''" "clock example_start = 1700000000000"
    "payment_processingDelay example_config = 1000" "transactions example_start = []"
    "timers example_start = []"
    by (simp_all add: example_merchant_def example_start_def example_config_def)
  from t have h: "payment_page_handler example_config example_start ''tx-2'' ''req-2''
        example_request example_merchant
       = Inr (example_start\<lparr> transactions := [example_pending],
                timers := [\<lparr> scheduled_at = 1700000000000, delay = 1000,
                             task = Processing_task example_pending example_request ''token-1'' \<rparr>] \<rparr>)"
    by (simp add: v)
  from t have d: "timer_due \<lparr> scheduled_at = 1700000000000, delay = 1000,
                  task = Processing_task example_pending example_request ''token-1'' \<rparr>
       = 1700000001000"
    by (simp add: v)
  from t have p: "run_task example_config (\<lambda>s. s) 0 (\<lambda>n::nat. Response 200) ?wp
          (Processing_task example_pending example_request (merchantToken example_merchant)) =
         ?wp\<lparr> transactions := map (\<lambda>t. if requestReference t = ''req-2''
                                      then t\<lparr>status := ''4'', completedTime := None\<rparr> else t)
                                 (transactions ?wp),
             timers := timers ?wp @
               [\<lparr> scheduled_at = clock ?wp,
                  delay = payment_callbackDelay example_config - payment_processingDelay example_config,
                  task = Final_task example_pending
                    (getOutcomeForTransaction (scenario ?wp) 0 (req_amount example_request)
                       (req_network example_request) (merchantToken example_merchant)) \<rparr>] \<rparr>"
    by blast
  from t have f: "run_task example_config (\<lambda>s. s) 0 (\<lambda>n::nat. Response 200) ?wt
          (Final_task example_pending ''1'') =
         ?wt\<lparr> transactions := map (\<lambda>t. if requestReference t = ''req-2''
                                      then t\<lparr>status := ''1'',
                                             completedTime := Some (clock ?wt)\<rparr>
                                      else t)
                                 (transactions ?wt),
             timers := timers ?wt @
               [\<lparr> scheduled_at = clock ?wt, delay = 0, task = Callback_task ''tx-2'' \<rparr>] \<rparr>"
    by blast
  have p1: "map status (transactions
        (run_task example_config (\<lambda>s. s) 0 (\<lambda>n::nat. Response 200) ?wp
           (Processing_task example_pending example_request ''token-1''))) = [''4'']"
    using p unfolding example_created_eq by (simp add: v o r)
  have p2: "map task (timers
        (run_task example_config (\<lambda>s. s) 0 (\<lambda>n::nat. Response 200) ?wp
           (Processing_task example_pending example_request ''token-1'')))
       = [Processing_task example_pending example_request ''token-1'',
          Final_task example_pending ''1'']"
    using p unfolding example_created_eq by (simp add: v o r)
  have f1: "map status (transactions
        (run_task example_config (\<lambda>s. s) 0 (\<lambda>n::nat. Response 200) ?wt
           (Final_task example_pending ''1''))) = [''1'']"
    unfolding f by (simp add: admin_scenarios_def example_in_processing_eq r)
  have f2: "map task (timers
        (run_task example_config (\<lambda>s. s) 0 (\<lambda>n::nat. Response 200) ?wt
           (Final_task example_pending ''1'')))
       = [Final_task example_pending ''1'', Callback_task ''tx-2'']"
    unfolding f by (simp add: admin_scenarios_def example_in_processing_eq)
  show ?thesis using c stp stt h d p1 p2 o2 f1 f2 by (intro conjI)
qed

subsection \<open>Claim C8: where the delays are read\<close>

text \<open>
  C8 says that every transition reads the scenario in force, the two delays included, so
  that changing the delays through the administration changes the timing of the
  transitions set afterwards. The route takes both delays from the static
  \<^verbatim>\<open>config.payment\<close>: after the scenario has been given a processing delay of 5000 and
  a callback delay of 9000, a new payment still gets its first timer after 1000 and its
  second after 3000 - 1000 = 2000.
\<close>

theorem admin_delays_not_used:
  "processingDelay (scenario (admin_scenarios example_start slow_delays)) = 5000
   \<and> callbackDelay (scenario (admin_scenarios example_start slow_delays)) = 9000
   \<and> map delay (timers (example_created example_config
                           (admin_scenarios example_start slow_delays))) = [1000]
   \<and> map delay (timers (fire_next example_config digest rnd respond
                           (example_created example_config
                              (admin_scenarios example_start slow_delays)))) = [2000]"
proof -
  let ?a = "admin_scenarios example_start slow_delays"
  let ?w = "example_created example_config ?a"
  have 1: "processingDelay (scenario ?a) = 5000" "callbackDelay (scenario ?a) = 9000"
    by (simp_all add: admin_scenarios_def setScenario_def slow_delays_def)
  have t: "timers ?w = [\<lparr> scheduled_at = clock ?a, delay = 1000,
             task = Processing_task (example_pending\<lparr>createdTime := clock ?a\<rparr>) example_request
                      ''token-1'' \<rparr>]"
    unfolding example_created_general
    by (simp add: admin_scenarios_def example_start_def example_config_def)
  have 2: "map delay (timers ?w) = [1000]" by (simp add: t)
  let ?w' = "?w\<lparr>timers := [], clock := max (clock ?w)
      (timer_due \<lparr> scheduled_at = clock ?a, delay = 1000,
             task = Processing_task (example_pending\<lparr>createdTime := clock ?a\<rparr>) example_request
                      ''token-1'' \<rparr>)\<rparr>"
  have ex: "list_ex (\<lambda>t. requestReference t
        = requestReference (example_pending\<lparr>createdTime := clock ?a\<rparr>)) (transactions ?w')"
    unfolding example_created_general by simp
  have 3: "map delay (timers (fire_next example_config digest rnd respond ?w)) = [2000]"
    unfolding fire_next_single[OF t] task.simps timer.simps run_Processing_task[OF ex]
    by (simp add: example_config_def)
  from 1 2 3 show ?thesis by simp
qed

subsection \<open>Claim C9: the delay of the terminal transition\<close>

text \<open>
  C9 says that the delay of the terminal transition, the callback delay minus the
  processing delay, is clamped to zero when the callback delay is not the larger. The
  route hands the difference to \<^verbatim>\<open>setTimeout\<close> as it is: with a callback delay of 1000
  and a processing delay of 3000 the second timer is set with a delay of -2000.
\<close>

theorem terminal_delay_negative_counterexample:
  "map delay (timers (fire_next late_config (\<lambda>s. s) 0 (\<lambda>n::nat. Response 200)
                        (example_created late_config example_start))) = [- 2000]"
proof -
  let ?w = "example_created late_config example_start"
  have t: "timers ?w = [\<lparr> scheduled_at = clock example_start, delay = 3000,
             task = Processing_task (example_pending\<lparr>createdTime := clock example_start\<rparr>)
                      example_request ''token-1'' \<rparr>]"
    unfolding example_created_general
    by (simp add: example_start_def late_config_def)
  let ?w' = "?w\<lparr>timers := [], clock := max (clock ?w)
      (timer_due \<lparr> scheduled_at = clock example_start, delay = 3000,
             task = Processing_task (example_pending\<lparr>createdTime := clock example_start\<rparr>)
                      example_request ''token-1'' \<rparr>)\<rparr>"
  have ex: "list_ex (\<lambda>t. requestReference t
        = requestReference (example_pending\<lparr>createdTime := clock example_start\<rparr>))
      (transactions ?w')"
    unfolding example_created_general by simp
  show ?thesis
    unfolding fire_next_single[OF t] task.simps timer.simps run_Processing_task[OF ex]
    by (simp add: late_config_def)
qed

text \<open>
  C9 as amended: the second timer is set with the callback delay minus the processing
  delay, unchanged; when the callback delay is not the larger, this is zero or negative
  and the platform runs the timer one millisecond after the PROCESSING transition.
\<close>

theorem terminal_delay_unclamped:
  assumes ex: "list_ex (\<lambda>t. requestReference t = requestReference tx) (transactions w)"
  shows
    "map delay (drop (length (timers w))
        (timers (run_task config digest rnd respond w (Processing_task tx body token))))
       = [payment_callbackDelay config - payment_processingDelay config]
     \<and> (payment_callbackDelay config \<le> payment_processingDelay config \<longrightarrow>
          map timer_due (drop (length (timers w))
            (timers (run_task config digest rnd respond w (Processing_task tx body token))))
          = [clock w + 1])"
  unfolding run_Processing_task[OF ex] by (simp add: timer_due_def)

theorem terminal_delay_unclamped_witness:
  "list_ex (\<lambda>t. requestReference t = requestReference example_pending)
     (transactions (example_created late_config example_start))
   \<and> payment_callbackDelay late_config \<le> payment_processingDelay late_config
   \<and> map delay (drop (length (timers (example_created late_config example_start)))
        (timers (run_task late_config (\<lambda>s. s) 0 (\<lambda>n::nat. Response 200)
                   (example_created late_config example_start)
                   (Processing_task example_pending example_request ''token-1''))))
       = [- 2000]
   \<and> map timer_due (drop (length (timers (example_created late_config example_start)))
        (timers (run_task late_config (\<lambda>s. s) 0 (\<lambda>n::nat. Response 200)
                   (example_created late_config example_start)
                   (Processing_task example_pending example_request ''token-1''))))
       = [1700000000001]"
proof -
  let ?w = "example_created late_config example_start"
  have ex: "list_ex (\<lambda>t. requestReference t = requestReference example_pending) (transactions ?w)"
    unfolding example_created_general by simp
  have c: "payment_callbackDelay late_config \<le> payment_processingDelay late_config"
    "payment_callbackDelay late_config - payment_processingDelay late_config = - 2000"
    by (simp_all add: late_config_def)
  have k: "clock ?w + 1 = 1700000000001"
    unfolding example_created_general by (simp add: example_start_def)
  note t = terminal_delay_unclamped[OF ex, of late_config "\<lambda>s. s" 0 "\<lambda>n::nat. Response 200"
      example_request "''token-1''"]
  show ?thesis using ex c(1) t unfolding c(2) k by simp
qed

section \<open>Properties of the payment service\<close>

lemma nat_less_10_cases:
  "(a::nat) < 10 \<Longrightarrow> a = 0 \<or> a = 1 \<or> a = 2 \<or> a = 3 \<or> a = 4 \<or> a = 5 \<or> a = 6 \<or> a = 7
     \<or> a = 8 \<or> a = 9"
  by arith

lemma is_digit_digit_char: "is_digit (digit_char d)"
proof -
  have "d mod 10 < 10" by simp
  from nat_less_10_cases[OF this] show ?thesis
    by (elim disjE) (simp_all add: digit_char_def is_digit_def)
qed

lemma show_nat_digits: "list_all is_digit (show_nat n) \<and> show_nat n \<noteq> []"
proof (induction n rule: show_nat.induct)
  case (1 n)
  show ?case
  proof (cases "n < 10")
    case True
    then show ?thesis by (subst show_nat.simps, subst (2) show_nat.simps) (simp add: is_digit_digit_char)
  next
    case False
    with 1 show ?thesis
      by (subst show_nat.simps, subst (2) show_nat.simps) (simp add: is_digit_digit_char)
  qed
qed

lemma Decimal_of_parts:
  assumes "ip \<noteq> []" "list_all is_digit ip" "list_all is_digit fr" "length fr = 2"
  shows "Decimal_of_string (ip @ ''.'' @ fr) = Some (Digits ip fr)"
proof -
  let ?s = "ip @ ''.'' @ fr"
  have n: "length ?s = length ip + 3" using assms by simp
  have 1: "length ?s - 3 = length ip" "length ?s - 2 = length ip + 1" using n by simp_all
  have 2: "?s ! (length ip) = CHR ''.''" by (simp add: nth_append)
  have 3: "take (length ip) ?s = ip" "drop (length ip + 1) ?s = fr" by simp_all
  have 4: "4 \<le> length ?s" using n assms(1) by (cases ip) simp_all
  show ?thesis
    unfolding Decimal_of_string_def Let_def 1 2 3 using 4 assms by simp
qed

text \<open>What is stored for an amount reads back as the string of the request.\<close>

lemma Decimal_of_string_Some:
  assumes "Decimal_of_string s = Some d"
  shows "Decimal_toString d = s \<and> two_decimals d \<and> toFixed 2 d = s
     \<and> toFixed 6 d = s @ ''0000''"
proof -
  let ?n = "length s"
  let ?ip = "take (?n - 3) s" and ?fr = "drop (?n - 2) s"
  have c: "4 \<le> ?n" "s ! (?n - 3) = CHR ''.''" "list_all is_digit ?ip" "list_all is_digit ?fr"
    and d: "d = Digits ?ip ?fr"
    using assms by (auto simp: Decimal_of_string_def Let_def split: if_splits)
  have "?n - 3 < ?n" using c(1) by arith
  then have "s = take (?n - 3) s @ s ! (?n - 3) # drop (Suc (?n - 3)) s"
    by (rule id_take_nth_drop)
  moreover have "Suc (?n - 3) = ?n - 2" using c(1) by arith
  ultimately have s: "?ip @ ''.'' @ ?fr = s" using c(2) by simp
  have l: "length ?fr = 2" using c(1) by simp
  have ne: "?ip \<noteq> []" using c(1) by auto
  have r: "replicate (6 - 2) CHR ''0'' = ''0000''" by (simp add: eval_nat_numeral)
  have "Decimal_toString d = s" using s d by (simp add: Decimal_toString_def)
  moreover have "two_decimals d" using c l ne d by (simp add: two_decimals_def)
  moreover have "toFixed 2 d = s" using s d l by (simp add: toFixed_def)
  moreover have "toFixed 6 d = s @ ''0000''"
  proof -
    have "toFixed 6 d = ?ip @ ''.'' @ ?fr @ replicate (6 - 2) CHR ''0''"
      unfolding toFixed_def d Decimal.case l ..
    also have "\<dots> = (?ip @ ''.'' @ ?fr) @ ''0000''" unfolding r by simp
    finally show ?thesis unfolding s .
  qed
  ultimately show ?thesis by blast
qed

lemma toFixed_6_shape:
  assumes "two_decimals d"
  shows "toFixed 6 d = Decimal_toString d @ ''0000''
     \<and> (\<exists>ip fr. toFixed 6 d = ip @ ''.'' @ fr \<and> ip \<noteq> [] \<and> list_all is_digit ip
          \<and> length fr = 6 \<and> list_all is_digit fr)"
proof (cases d)
  case (Digits whole cents)
  then have c: "whole \<noteq> []" "list_all is_digit whole" "list_all is_digit cents" "length cents = 2"
    using assms by (simp_all add: two_decimals_def)
  have r: "replicate (6 - 2) CHR ''0'' = ''0000''" by (simp add: eval_nat_numeral)
  have t: "toFixed 6 d = whole @ ''.'' @ cents @ ''0000''"
    unfolding toFixed_def Digits Decimal.case c(4) r ..
  have "toFixed 6 d = Decimal_toString d @ ''0000''"
    using t Digits by (simp add: Decimal_toString_def)
  moreover have "length (cents @ ''0000'') = 6 \<and> list_all is_digit (cents @ ''0000'')"
    using c by (simp add: is_digit_def)
  ultimately show ?thesis using t c by blast
qed

lemma show_nat_created: "show_nat (1700000000000 div 1000) = ''1700000000''"
  by (simp add: digit_char_def)

lemma show_nat_completed: "show_nat (1700000003000 div 1000) = ''1700000003''"
  by (simp add: digit_char_def)

lemma query_sorted:
  "\<exists>txs. mset txs = mset (filter (\<lambda>tx. merchantReference tx = reference) store)
      \<and> sorted (map createdTime txs)
      \<and> getTransactionsByMerchantReference store reference = map TransactionQuery_of txs
      \<and> payment_query_response store reference = map (\<lambda>tx. json_of_query (TransactionQuery_of tx)) txs"
proof -
  let ?txs = "sort_key createdTime (filter (\<lambda>tx. merchantReference tx = reference) store)"
  have "mset ?txs = mset (filter (\<lambda>tx. merchantReference tx = reference) store)" by simp
  moreover have "sorted (map createdTime ?txs)" by simp
  moreover have "getTransactionsByMerchantReference store reference = map TransactionQuery_of ?txs"
    by (simp add: getTransactionsByMerchantReference_def)
  moreover have "payment_query_response store reference
      = map (\<lambda>tx. json_of_query (TransactionQuery_of tx)) ?txs"
    by (simp add: payment_query_response_def getTransactionsByMerchantReference_def)
  ultimately show ?thesis by blast
qed

lemma json_of_TransactionQuery:
  "json_of_query (TransactionQuery_of tx) =
     [ (''type'', JString (tx_type tx)),
       (''merchant_reference'', JString (merchantReference tx)),
       (''request_reference'', JString (requestReference tx)),
       (''status'', JString (status tx)),
       (''currency'', JString (currency tx)),
       (''amount'', JString (toFixed 6 (amount tx))),
       (''created_time'', JString (show_nat (createdTime tx div 1000))),
       (''completed_time'', (case completedTime tx of
                               Some t \<Rightarrow> JString (show_nat (t div 1000)) | None \<Rightarrow> JNull)) ]"
  by (simp add: json_of_query_def TransactionQuery_of_def split: option.splits)

lemma createTransaction_Inr:
  "createTransaction store new_id new_reference now data merchant = Inr (created, store') \<Longrightarrow>
   tx_type created = ''Sale'' \<and> status created = ''0''
   \<and> merchantReference created = req_merchant_reference data
   \<and> createdTime created = now \<and> completedTime created = None
   \<and> Decimal_of_string (req_amount data) = Some (amount created)
   \<and> store' = store @ [created]"
  by (auto simp: createTransaction_def Let_def split: option.splits)

lemma q_type_TransactionQuery_of: "q_type (TransactionQuery_of tx) = tx_type tx"
  by (simp add: TransactionQuery_of_def)

lemma query_types:
  assumes "list_all (\<lambda>tx. tx_type tx = ''Sale'') store"
  shows "list_all (\<lambda>q. q_type q = ''Sale'') (getTransactionsByMerchantReference store reference)"
proof -
  from assms have a: "\<forall>tx\<in>set store. tx_type tx = ''Sale''" unfolding list_all_iff .
  have "\<forall>q\<in>set (map TransactionQuery_of
           (sort_key createdTime (filter (\<lambda>tx. merchantReference tx = reference) store))).
          q_type q = ''Sale''"
    using a by (auto simp: q_type_TransactionQuery_of)
  then show ?thesis unfolding getTransactionsByMerchantReference_def Let_def list_all_iff .
qed

lemma updateTransactionStatus_keeps:
  "updateTransactionStatus store now r st completed = Inr store' \<Longrightarrow>
   map tx_type store' = map tx_type store \<and> map amount store' = map amount store"
  by (auto simp: updateTransactionStatus_def split: if_splits)

subsection \<open>Claim C7: the query by merchant reference\<close>

text \<open>
  C7 says that the query returns all the transactions of a merchant reference, by
  ascending creation time, each as a record with the type \<^verbatim>\<open>Sale\<close>, the two
  references, the status, the currency, the amount with six fractional digits, and the
  creation and completion times as integers of seconds since the epoch, null for a
  completion time not set; and that the two-decimal amount of the request stays stored as
  it was given. The program renders both times with \<^verbatim>\<open>toString()\<close>: in the response
  they are strings of digits, not numbers.
\<close>

theorem query_times_are_strings_counterexample:
  "map (\<lambda>obj. map_of obj ''created_time'')
       (payment_query_response [example_transaction] ''ORDER-1'') = [Some (JString ''1700000000'')]
   \<and> map (\<lambda>obj. map_of obj ''completed_time'')
       (payment_query_response [example_transaction] ''ORDER-1'') = [Some (JString ''1700000003'')]
   \<and> JString ''1700000000'' \<noteq> JNumber 1700000000
   \<and> JString ''1700000003'' \<noteq> JNumber 1700000003"
proof -
  have q: "getTransactionsByMerchantReference [example_transaction] ''ORDER-1''
      = [TransactionQuery_of example_transaction]"
    by (simp add: getTransactionsByMerchantReference_def example_transaction_def)
  have c: "q_created_time (TransactionQuery_of example_transaction) = ''1700000000''"
    "q_completed_time (TransactionQuery_of example_transaction) = Some ''1700000003''"
    using show_nat_created show_nat_completed
    by (simp_all add: TransactionQuery_of_def example_transaction_def)
  show ?thesis
    by (simp add: payment_query_response_def q json_of_query_def c)
qed

text \<open>
  C7 as amended, the times being strings: the query returns one record for each stored
  transaction with the merchant reference, by ascending creation time; a record carries
  the type (\<^verbatim>\<open>Sale\<close> in a store of sales, which is what \<^verbatim>\<open>createTransaction\<close>
  stores and a status update keeps), the two references, the status, the currency, the
  amount with six fractional digits, and the creation and completion times as the decimal
  strings of the seconds since the epoch, the completion time being null when it is not
  set. The two-decimal amount of the request stays stored as it was given: the stored
  amount reads back as the string of the request, and with six digits as that string
  followed by four zeros.
\<close>

theorem query_by_merchant_reference:
  "(\<exists>txs. mset txs = mset (filter (\<lambda>tx. merchantReference tx = reference) store)
      \<and> sorted (map createdTime txs)
      \<and> getTransactionsByMerchantReference store reference = map TransactionQuery_of txs
      \<and> payment_query_response store reference
          = map (\<lambda>tx. json_of_query (TransactionQuery_of tx)) txs)
   \<and> json_of_query (TransactionQuery_of tx) =
     [ (''type'', JString (tx_type tx)),
       (''merchant_reference'', JString (merchantReference tx)),
       (''request_reference'', JString (requestReference tx)),
       (''status'', JString (status tx)),
       (''currency'', JString (currency tx)),
       (''amount'', JString (toFixed 6 (amount tx))),
       (''created_time'', JString (show_nat (createdTime tx div 1000))),
       (''completed_time'', (case completedTime tx of
                               Some t \<Rightarrow> JString (show_nat (t div 1000)) | None \<Rightarrow> JNull)) ]
   \<and> list_all is_digit (show_nat seconds) \<and> show_nat seconds \<noteq> []
   \<and> (list_all (\<lambda>tx. tx_type tx = ''Sale'') store \<longrightarrow>
        list_all (\<lambda>q. q_type q = ''Sale'') (getTransactionsByMerchantReference store reference))
   \<and> (two_decimals (amount tx) \<longrightarrow>
        toFixed 6 (amount tx) = Decimal_toString (amount tx) @ ''0000''
        \<and> (\<exists>ip fr. toFixed 6 (amount tx) = ip @ ''.'' @ fr \<and> ip \<noteq> [] \<and> list_all is_digit ip
              \<and> length fr = 6 \<and> list_all is_digit fr))
   \<and> (createTransaction store new_id new_reference now data merchant = Inr (created, store') \<longrightarrow>
        tx_type created = ''Sale'' \<and> status created = ''0''
        \<and> merchantReference created = req_merchant_reference data
        \<and> createdTime created = now \<and> completedTime created = None
        \<and> Decimal_toString (amount created) = req_amount data
        \<and> two_decimals (amount created)
        \<and> toFixed 6 (amount created) = req_amount data @ ''0000''
        \<and> store' = store @ [created])
   \<and> (updateTransactionStatus store now r st completed = Inr store'' \<longrightarrow>
        map tx_type store'' = map tx_type store \<and> map amount store'' = map amount store)"
proof -
  have a: "createTransaction store new_id new_reference now data merchant = Inr (created, store') \<longrightarrow>
        tx_type created = ''Sale'' \<and> status created = ''0''
        \<and> merchantReference created = req_merchant_reference data
        \<and> createdTime created = now \<and> completedTime created = None
        \<and> Decimal_toString (amount created) = req_amount data
        \<and> two_decimals (amount created)
        \<and> toFixed 6 (amount created) = req_amount data @ ''0000''
        \<and> store' = store @ [created]"
  proof
    assume c: "createTransaction store new_id new_reference now data merchant = Inr (created, store')"
    note i = createTransaction_Inr[OF c]
    then have "Decimal_of_string (req_amount data) = Some (amount created)" by blast
    from Decimal_of_string_Some[OF this] i
    show "tx_type created = ''Sale'' \<and> status created = ''0''
        \<and> merchantReference created = req_merchant_reference data
        \<and> createdTime created = now \<and> completedTime created = None
        \<and> Decimal_toString (amount created) = req_amount data
        \<and> two_decimals (amount created)
        \<and> toFixed 6 (amount created) = req_amount data @ ''0000''
        \<and> store' = store @ [created]" by blast
  qed
  show ?thesis
    using query_sorted[of reference store] json_of_TransactionQuery[of tx]
      show_nat_digits[of seconds] query_types[of store reference]
      toFixed_6_shape[of "amount tx"] a
      updateTransactionStatus_keeps[of store now r st completed store'']
    by (intro conjI impI) (assumption | blast)+
qed

theorem query_by_merchant_reference_witness:
  "createTransaction [] ''tx-2'' ''req-2'' 1700000000000 example_request ''m-1''
     = Inr (example_pending, [example_pending])
   \<and> tx_type example_pending = ''Sale''
   \<and> req_amount example_request = ''99.99''
   \<and> Decimal_toString (amount example_pending) = ''99.99''
   \<and> two_decimals (amount example_pending)
   \<and> toFixed 6 (amount example_pending) = ''99.990000''
   \<and> updateTransactionStatus [example_pending] 1700000001000 ''req-2'' ''4'' None
     = Inr [example_pending\<lparr>status := ''4''\<rparr>]
   \<and> map tx_type [example_pending\<lparr>status := ''4''\<rparr>] = map tx_type [example_pending]
   \<and> map amount [example_pending\<lparr>status := ''4''\<rparr>] = map amount [example_pending]
   \<and> list_all (\<lambda>tx. tx_type tx = ''Sale'') [example_pending]
   \<and> list_all (\<lambda>q. q_type q = ''Sale'')
        (getTransactionsByMerchantReference [example_pending] ''ORDER-2'')
   \<and> (\<exists>txs. mset txs = mset (filter (\<lambda>tx. merchantReference tx = ''ORDER-2'') [example_pending])
      \<and> sorted (map createdTime txs)
      \<and> getTransactionsByMerchantReference [example_pending] ''ORDER-2''
          = map TransactionQuery_of txs)"
proof -
  have c: "createTransaction [] ''tx-2'' ''req-2'' 1700000000000 example_request ''m-1''
     = Inr (example_pending, [example_pending])"
    by (simp add: createTransaction_def example_request_def Decimal_of_9999 example_pending_def
        Let_def)
  have u: "updateTransactionStatus [example_pending] 1700000001000 ''req-2'' ''4'' None
     = Inr [example_pending\<lparr>status := ''4''\<rparr>]"
    by (simp add: updateTransactionStatus_def example_pending_def)
  have r: "req_amount example_request = ''99.99''" by (simp add: example_request_def)
  have s: "list_all (\<lambda>tx. tx_type tx = ''Sale'') [example_pending]"
    by (simp add: example_pending_def)
  note t = query_by_merchant_reference[where store = "[]" and new_id = "''tx-2''"
      and new_reference = "''req-2''" and now = 1700000000000 and data = example_request
      and merchant = "''m-1''" and created = example_pending and store' = "[example_pending]"
      and tx = example_pending and reference = "''ORDER-2''"]
  note t2 = query_by_merchant_reference[where store = "[example_pending]"
      and now = 1700000001000 and r = "''req-2''" and st = "''4''" and completed = None
      and store'' = "[example_pending\<lparr>status := ''4''\<rparr>]" and reference = "''ORDER-2''"
      and tx = example_pending]
  have 1: "tx_type example_pending = ''Sale''
      \<and> Decimal_toString (amount example_pending) = req_amount example_request
      \<and> two_decimals (amount example_pending)
      \<and> toFixed 6 (amount example_pending) = req_amount example_request @ ''0000''"
    using t c by blast
  have 3: "map tx_type [example_pending\<lparr>status := ''4''\<rparr>] = map tx_type [example_pending]
      \<and> map amount [example_pending\<lparr>status := ''4''\<rparr>] = map amount [example_pending]"
    using t2 u by blast
  have 4: "\<exists>txs. mset txs = mset (filter (\<lambda>tx. merchantReference tx = ''ORDER-2'') [example_pending])
      \<and> sorted (map createdTime txs)
      \<and> getTransactionsByMerchantReference [example_pending] ''ORDER-2''
          = map TransactionQuery_of txs"
    using t2 by blast
  have 5: "list_all (\<lambda>q. q_type q = ''Sale'')
        (getTransactionsByMerchantReference [example_pending] ''ORDER-2'')"
    using t2 s by blast
  show ?thesis using c u r s 1 3 4 5 by simp
qed

end
